theory Spec2Isabelle
  imports Main "HOL-Library.AList" "HOL-Library.Char_ord" "HOL-Library.List_Lexorder"
begin

section \<open>Go values: results, panics, byte strings\<close>

text \<open>
  A Go string is a sequence of bytes, and so is a \<^typ>\<open>string\<close> of HOL: a \<^typ>\<open>char\<close> is
  one byte. File contents (\<^verbatim>\<open>[]byte\<close>) are byte strings too. A Go function either
  returns or panics; \<open>go_result\<close> keeps the two apart, so that an index out of range is a
  value of the model and not an unspecified \<open>xs ! i\<close>.
\<close>

type_synonym bytes = string

datatype panic =
    IndexOutOfRange | SliceBoundsOutOfRange | NilDereference | InvalidSessionType | LibraryPanic

datatype 'a go_result = Returned 'a | Panicked panic

text \<open>\<^verbatim>\<open>s[i]\<close> on a Go string.\<close>

definition byte_at :: "string \<Rightarrow> nat \<Rightarrow> char go_result" where
  "byte_at s i = (if i < length s then Returned (s ! i) else Panicked IndexOutOfRange)"

text \<open>
  \<^verbatim>\<open>string(b)\<close> for a byte \<open>b\<close>: the UTF-8 encoding of the code point \<open>b\<close>, one byte below
  128 and two bytes from 128 on.
\<close>

definition string_of_byte :: "char \<Rightarrow> string" where
  "string_of_byte c =
     (let n = (of_char c :: nat) in
      if n < 128 then [c]
      else [char_of (192 + n div 64), char_of (128 + n mod 64)])"

definition isDigit :: "char \<Rightarrow> bool" where
  "isDigit c \<longleftrightarrow> 48 \<le> (of_char c :: nat) \<and> (of_char c :: nat) \<le> 57"

definition digitVal :: "char \<Rightarrow> int" where
  "digitVal c = int (of_char c) - 48"

datatype SchemeManagerStatus =
    SchemeManagerStatusValid
  | SchemeManagerStatusUnprocessed
  | SchemeManagerStatusInvalidIndex
  | SchemeManagerStatusInvalidSignature
  | SchemeManagerStatusParsingError
  | SchemeManagerStatusContentParsingError

text \<open>
  The errors of the code. \<open>SchemeManagerError\<close> is the struct of that name: the manager,
  its status and the error that occurred.
\<close>

datatype error =
    ErrSyntax string
  | ErrRange string
  | NoSupportedVersion string string
  | IncorrectParts nat
  | HexInvalidByte char
  | HexErrLength
  | ErrIO string
  | ErrHashMismatch string
  | ErrNotExist string
  | ErrMissingIndexFiles
  | ErrSignatureFailedToVerify panic
  | ErrSignatureInvalid
  | ErrInvalidPublicKey
  | ErrLibrary string
  | ErrReadOnlyInstall
  | ErrReadOnlyDownload
  | ErrReadOnlyUpdate
  | ErrUnknownSchemeManager string
  | ErrMissingIndex string
  | ErrDescriptionNotFound
  | ErrFolderName string string
  | ErrEmpty
  | ErrUnsupportedScheme
  | ErrWrongDirectory string string
  | ErrNoKeysharePublicKey string
  | ErrTimestamp
  | ErrNotContained
  | SchemeManagerError string SchemeManagerStatus error

text \<open>
  \<^verbatim>\<open>strconv.Atoi\<close>: an optional sign, then decimal digits only, and a value that fits
  in 64 bits.
\<close>

fun decimal :: "int \<Rightarrow> string \<Rightarrow> int" where
  "decimal acc [] = acc"
| "decimal acc (c # cs) = decimal (acc * 10 + digitVal c) cs"

definition Atoi :: "string \<Rightarrow> error + int" where
  "Atoi s =
     (let body = (case s of [] \<Rightarrow> [] | c # cs \<Rightarrow> if c = CHR ''-'' \<or> c = CHR ''+'' then cs else s);
          neg = (case s of [] \<Rightarrow> False | c # cs \<Rightarrow> c = CHR ''-'')
      in if body = [] \<or> \<not> list_all isDigit body then Inl (ErrSyntax s)
         else (let v = (if neg then - decimal 0 body else decimal 0 body)
               in if v < - (2 ^ 63) \<or> 2 ^ 63 \<le> v then Inl (ErrRange s) else Inr v))"

text \<open>\<^verbatim>\<open>fmt.Sprintf("%d", n)\<close>.\<close>

definition digitChar :: "nat \<Rightarrow> char" where
  "digitChar n = char_of (48 + n)"

function itoa_nat :: "nat \<Rightarrow> string" where
  "itoa_nat n = (if n < 10 then [digitChar n] else itoa_nat (n div 10) @ [digitChar (n mod 10)])"
  by pat_completeness auto
termination
  by (relation "measure id") auto

definition itoa :: "int \<Rightarrow> string" where
  "itoa i = (if i < 0 then CHR ''-'' # itoa_nat (nat (- i)) else itoa_nat (nat i))"

text \<open>\<^verbatim>\<open>strings.Split(s, sep)\<close> for a separator of one byte: one more part than separators.\<close>

fun split_on :: "char \<Rightarrow> string \<Rightarrow> string list" where
  "split_on sep [] = [[]]"
| "split_on sep (c # cs) =
     (if c = sep then [] # split_on sep cs
      else (case split_on sep cs of
              [] \<Rightarrow> [[c]]
            | p # ps \<Rightarrow> (c # p) # ps))"

section \<open>Version negotiation (session.go)\<close>

text \<open>
  \<open>Action\<close> is a string type of the repository whose constants are declared outside the
  files at hand; the datatype names the four constants the code uses and keeps every
  other string apart.
\<close>

datatype Action = ActionDisclosing | ActionSigning | ActionIssuing | ActionUnknown | ActionOther string

record Qr =
  URL :: string
  ProtocolVersion :: string
  ProtocolMaxVersion :: string
  Type :: Action

text \<open>
  \<^verbatim>\<open>var supportedVersions = map[int][]int{2: {2, 1}}\<close>. The map is read through its
  sorted keys only, so an association list with distinct keys stands for it.
\<close>

definition supportedVersions :: "(int \<times> int list) list" where
  "supportedVersions = [(2, [2, 1])]"

text \<open>\<^verbatim>\<open>strconv.Atoi(string(s[i]))\<close>: the read panics when \<open>i\<close> is out of range.\<close>

definition atoi_at :: "string \<Rightarrow> nat \<Rightarrow> (error + int) go_result" where
  "atoi_at s i =
     (case byte_at s i of
        Panicked p \<Rightarrow> Panicked p
      | Returned c \<Rightarrow> Returned (Atoi (string_of_byte c)))"

text \<open>The inner loop over the minor versions of one major version.\<close>

fun firstMinor :: "int \<Rightarrow> int \<Rightarrow> int \<Rightarrow> int \<Rightarrow> int \<Rightarrow> int list \<Rightarrow> int option" where
  "firstMinor minmajor minminor maxmajor maxminor major [] = None"
| "firstMinor minmajor minminor maxmajor maxminor major (minor # rest) =
     (let aboveMinimum = (major > minmajor \<or> (major = minmajor \<and> minor \<ge> minminor));
          underMaximum = (major < maxmajor \<or> (major = maxmajor \<and> minor \<le> maxminor))
      in if aboveMinimum \<and> underMaximum then Some minor
         else firstMinor minmajor minminor maxmajor maxminor major rest)"

text \<open>\<open>supportedVersions[major]\<close>: the empty slice for a key that is absent.\<close>

definition minorsOf :: "(int \<times> int list) list \<Rightarrow> int \<Rightarrow> int list" where
  "minorsOf tbl major = (case map_of tbl major of None \<Rightarrow> [] | Some ms \<Rightarrow> ms)"

text \<open>The outer loop over the keys.\<close>

fun firstVersion ::
  "(int \<times> int list) list \<Rightarrow> int \<Rightarrow> int \<Rightarrow> int \<Rightarrow> int \<Rightarrow> int list \<Rightarrow> (int \<times> int) option" where
  "firstVersion tbl minmajor minminor maxmajor maxminor [] = None"
| "firstVersion tbl minmajor minminor maxmajor maxminor (major # keys) =
     (case firstMinor minmajor minminor maxmajor maxminor major (minorsOf tbl major) of
        Some minor \<Rightarrow> Some (major, minor)
      | None \<Rightarrow> firstVersion tbl minmajor minminor maxmajor maxminor keys)"

text \<open>\<^verbatim>\<open>sort.Sort(sort.Reverse(sort.IntSlice(keys)))\<close>.\<close>

definition sortedKeysDesc :: "(int \<times> int list) list \<Rightarrow> int list" where
  "sortedKeysDesc tbl = rev (sort (map fst tbl))"

definition calcVersionWith :: "(int \<times> int list) list \<Rightarrow> Qr \<Rightarrow> (error + string) go_result" where
  "calcVersionWith tbl qr =
     (case atoi_at (ProtocolVersion qr) 0 of
        Panicked p \<Rightarrow> Panicked p
      | Returned (Inl e) \<Rightarrow> Returned (Inl e)
      | Returned (Inr minmajor) \<Rightarrow>
     (case atoi_at (ProtocolVersion qr) 2 of
        Panicked p \<Rightarrow> Panicked p
      | Returned (Inl e) \<Rightarrow> Returned (Inl e)
      | Returned (Inr minminor) \<Rightarrow>
     (case atoi_at (ProtocolMaxVersion qr) 0 of
        Panicked p \<Rightarrow> Panicked p
      | Returned (Inl e) \<Rightarrow> Returned (Inl e)
      | Returned (Inr maxmajor) \<Rightarrow>
     (case atoi_at (ProtocolMaxVersion qr) 2 of
        Panicked p \<Rightarrow> Panicked p
      | Returned (Inl e) \<Rightarrow> Returned (Inl e)
      | Returned (Inr maxminor) \<Rightarrow>
     (case firstVersion tbl minmajor minminor maxmajor maxminor (sortedKeysDesc tbl) of
        Some (major, minor) \<Rightarrow> Returned (Inr (itoa major @ ''.'' @ itoa minor))
      | None \<Rightarrow>
          Returned (Inl (NoSupportedVersion (ProtocolVersion qr) (ProtocolMaxVersion qr))))))))"

definition calcVersion :: "Qr \<Rightarrow> (error + string) go_result" where
  "calcVersion qr = calcVersionWith supportedVersions qr"

text \<open>
  What the negotiation is to compute, in the words of the specification: versions are
  pairs ordered by major, then minor; the range is inclusive; the supported pairs are
  those of the table.
\<close>

definition versionLe :: "int \<times> int \<Rightarrow> int \<times> int \<Rightarrow> bool" where
  "versionLe v w \<longleftrightarrow> fst v < fst w \<or> (fst v = fst w \<and> snd v \<le> snd w)"

definition inRange :: "int \<times> int \<Rightarrow> int \<times> int \<Rightarrow> int \<times> int \<Rightarrow> bool" where
  "inRange lo hi v \<longleftrightarrow> versionLe lo v \<and> versionLe v hi"

definition supportedPairs :: "(int \<times> int list) list \<Rightarrow> (int \<times> int) list" where
  "supportedPairs tbl = concat (map (\<lambda>(major, minors). map (Pair major) minors) tbl)"

definition minorsDescending :: "(int \<times> int list) list \<Rightarrow> bool" where
  "minorsDescending tbl \<longleftrightarrow> list_all (\<lambda>(major, minors). sorted (rev minors)) tbl"

definition versionString :: "int \<times> int \<Rightarrow> string" where
  "versionString v = itoa (fst v) @ ''.'' @ itoa (snd v)"

definition isHighestSupported ::
  "(int \<times> int list) list \<Rightarrow> int \<times> int \<Rightarrow> int \<times> int \<Rightarrow> int \<times> int \<Rightarrow> bool" where
  "isHighestSupported tbl lo hi v \<longleftrightarrow>
     v \<in> set (supportedPairs tbl) \<and> inRange lo hi v \<and>
     list_all (\<lambda>w. \<not> inRange lo hi w \<or> versionLe w v) (supportedPairs tbl)"

definition noneSupported ::
  "(int \<times> int list) list \<Rightarrow> int \<times> int \<Rightarrow> int \<times> int \<Rightarrow> bool" where
  "noneSupported tbl lo hi \<longleftrightarrow> list_all (\<lambda>w. \<not> inRange lo hi w) (supportedPairs tbl)"

text \<open>
  The reads of \<open>calcVersion\<close> that fall outside their string: position 0, then 2, of the
  minimum, then of the maximum, each read only when every byte read before is a digit.
\<close>

definition readsOutOfRange :: "Qr \<Rightarrow> bool" where
  "readsOutOfRange qr =
     (let v = ProtocolVersion qr; w = ProtocolMaxVersion qr in
      if length v = 0 then True
      else if \<not> isDigit (v ! 0) then False
      else if length v < 3 then True
      else if \<not> isDigit (v ! 2) then False
      else if length w = 0 then True
      else if \<not> isDigit (w ! 0) then False
      else length w < 3)"

section \<open>The session (session.go)\<close>

text \<open>
  A session talks to the embedder through the \<open>Handler\<close> callbacks and to the server
  through its transport. A run is modelled by the sequence of these calls, in the order
  the code makes them; a panic ends the sequence. What the server, the credential
  manager, the user and the keyshare sub-session answer is the environment of the run.
  The goroutines of the source (\<^verbatim>\<open>go session.start()\<close>, \<^verbatim>\<open>go session.do(proceed)\<close>) run one
  after the other, so the sequence of a run is the concatenation of theirs. The
  environment lets the handler call the permission callback at most once and lets the
  keyshare sub-session report at most one outcome.
\<close>

datatype Status = StatusConnected | StatusCommunicating

datatype ErrorCode =
    ErrorProtocolVersionNotSupported
  | ErrorUnknownAction
  | ErrorInvalidJWT
  | ErrorCrypto
  | ErrorKeyshareBlocked
  | ErrorKeyshare
  | ErrorRejected
  | ErrorTransport

datatype info = InfoNone | InfoText string | InfoAction Action

record SessionError =
  ErrorCode :: ErrorCode
  Err :: "error option"
  Info :: info

datatype event =
    TransportDelete
  | TransportGet string
  | TransportPost string
  | StatusUpdate Action Status
  | Success Action
  | Cancelled Action
  | Failure Action SessionError
  | UnsatisfiableRequest Action
  | AskIssuancePermission
  | AskVerificationPermission
  | AskSignaturePermission
  | StartKeyshareSession
  | ConstructCredentials
  | AddLogEntry
  | Panic panic

datatype keyshare_outcome =
    KeyshareDone
  | KeyshareCancelled
  | KeyshareBlocked int
  | KeyshareError error

record session_env =
  jwtReply :: "SessionError option"
  jwtParse :: "error option"
  missing :: "string list"
  permission :: "bool option"
  distributed :: bool
  proofsResult :: "error option"
  buildersResult :: "error option"
  keyshareOutcome :: "keyshare_outcome option"
  proofsReply :: "SessionError + string"
  commitmentsReply :: "SessionError option"
  constructResult :: "error option"

definition fail :: "Action \<Rightarrow> SessionError \<Rightarrow> event list" where
  "fail a e = [TransportDelete, Failure a e]"

definition sendResponse :: "session_env \<Rightarrow> Action \<Rightarrow> event list" where
  "sendResponse env a =
     (if a = ActionSigning \<or> a = ActionDisclosing then
        TransportPost ''proofs'' #
        (case proofsReply env of
           Inl e \<Rightarrow> fail a e
         | Inr response \<Rightarrow>
             if response \<noteq> ''VALID''
             then fail a \<lparr>ErrorCode = ErrorRejected, Err = None, Info = InfoText response\<rparr>
             else [AddLogEntry, Success a])
      else if a = ActionIssuing then
        TransportPost ''commitments'' #
        (case commitmentsReply env of
           Some e \<Rightarrow> fail a e
         | None \<Rightarrow>
             ConstructCredentials #
             (case constructResult env of
                Some err \<Rightarrow> fail a \<lparr>ErrorCode = ErrorCrypto, Err = Some err, Info = InfoNone\<rparr>
              | None \<Rightarrow> [AddLogEntry, Success a]))
      else [AddLogEntry, Success a])"

text \<open>
  The methods \<open>KeyshareDone\<close>, \<open>KeyshareCancelled\<close>, \<open>KeyshareBlocked\<close> and \<open>KeyshareError\<close>
  of the session, called by the keyshare sub-session.
\<close>

definition keyshareCallback :: "session_env \<Rightarrow> Action \<Rightarrow> event list" where
  "keyshareCallback env a =
     (case keyshareOutcome env of
        None \<Rightarrow> []
      | Some KeyshareDone \<Rightarrow> sendResponse env a
      | Some KeyshareCancelled \<Rightarrow> [TransportDelete, Cancelled a]
      | Some (KeyshareBlocked duration) \<Rightarrow>
          fail a \<lparr>ErrorCode = ErrorKeyshareBlocked, Err = None, Info = InfoText (itoa duration)\<rparr>
      | Some (KeyshareError err) \<Rightarrow>
          fail a \<lparr>ErrorCode = ErrorKeyshare, Err = Some err, Info = InfoNone\<rparr>)"

definition isSessionAction :: "Action \<Rightarrow> bool" where
  "isSessionAction a \<longleftrightarrow> a = ActionSigning \<or> a = ActionDisclosing \<or> a = ActionIssuing"

text \<open>
  \<open>session.do\<close>. In the keyshare branch the source calls \<open>session.fail\<close> and then goes
  on to \<open>startKeyshareSession\<close>: there is no \<open>return\<close> after the call.
\<close>

definition do :: "session_env \<Rightarrow> Action \<Rightarrow> bool \<Rightarrow> event list" where
  "do env a proceed =
     (if \<not> proceed then [TransportDelete, Cancelled a]
      else StatusUpdate a StatusCommunicating #
        (if \<not> distributed env then
           (case (if isSessionAction a then proofsResult env else None) of
              Some err \<Rightarrow> fail a \<lparr>ErrorCode = ErrorCrypto, Err = Some err, Info = InfoNone\<rparr>
            | None \<Rightarrow> sendResponse env a)
         else
           (case (if isSessionAction a then buildersResult env else None) of
              Some err \<Rightarrow> fail a \<lparr>ErrorCode = ErrorCrypto, Err = Some err, Info = InfoNone\<rparr>
            | None \<Rightarrow> [])
           @ StartKeyshareSession # keyshareCallback env a))"

text \<open>The permission callback: \<open>go session.do(proceed)\<close> once the handler calls it.\<close>

definition callback :: "session_env \<Rightarrow> Action \<Rightarrow> event list" where
  "callback env a = (case permission env of None \<Rightarrow> [] | Some proceed \<Rightarrow> do env a proceed)"

definition start :: "session_env \<Rightarrow> Action \<Rightarrow> event list" where
  "start env a =
     StatusUpdate a StatusCommunicating # TransportGet ''jwt'' #
     (case jwtReply env of
        Some e \<Rightarrow> fail a e
      | None \<Rightarrow>
     (case jwtParse env of
        Some err \<Rightarrow> fail a \<lparr>ErrorCode = ErrorInvalidJWT, Err = Some err, Info = InfoNone\<rparr>
      | None \<Rightarrow>
          if length (missing env) > 0 then [UnsatisfiableRequest a]
          else StatusUpdate a StatusConnected #
            (case a of
               ActionDisclosing \<Rightarrow> AskVerificationPermission # callback env a
             | ActionSigning \<Rightarrow> AskSignaturePermission # callback env a
             | ActionIssuing \<Rightarrow> AskIssuancePermission # callback env a
             | _ \<Rightarrow> [Panic InvalidSessionType])))"

definition NewSession :: "session_env \<Rightarrow> Qr \<Rightarrow> event list" where
  "NewSession env qr =
     (case calcVersion qr of
        Panicked p \<Rightarrow> [Panic p]
      | Returned (Inl err) \<Rightarrow>
          fail (Type qr)
            \<lparr>ErrorCode = ErrorProtocolVersionNotSupported, Err = Some err, Info = InfoNone\<rparr>
      | Returned (Inr version) \<Rightarrow>
          (case Type qr of
             ActionDisclosing \<Rightarrow> start env (Type qr)
           | ActionSigning \<Rightarrow> start env (Type qr)
           | ActionIssuing \<Rightarrow> start env (Type qr)
           | _ \<Rightarrow>
               fail (Type qr)
                 \<lparr>ErrorCode = ErrorUnknownAction, Err = None, Info = InfoAction (Type qr)\<rparr>))"

text \<open>
  One environment and two QR codes to evaluate the session on: a disclosure that the
  server accepts, the QR of the specification's scenario (minimum 2.1, maximum 2.2) and
  the one whose range holds no supported version (2.3 to 2.4).
\<close>

definition acceptingEnv :: session_env where
  "acceptingEnv = \<lparr>jwtReply = None, jwtParse = None, missing = [], permission = Some True,
     distributed = False, proofsResult = None, buildersResult = None, keyshareOutcome = None,
     proofsReply = Inr ''VALID'', commitmentsReply = None, constructResult = None\<rparr>"

definition qrVersions :: "string \<Rightarrow> string \<Rightarrow> Qr" where
  "qrVersions v w = \<lparr>URL = ''https://example.com/irma'', ProtocolVersion = v,
     ProtocolMaxVersion = w, Type = ActionDisclosing\<rparr>"

section \<open>The scheme manager index (irmaconfig.go)\<close>

text \<open>
  \<^verbatim>\<open>encoding/hex\<close> of the Go library. \<open>DecodeString\<close> takes digits of either case, two
  for each byte, and fails on the first byte that is no hex digit or on an odd length;
  \<open>EncodeToString\<close> writes lower case.
\<close>

definition hextable :: string where
  "hextable = ''0123456789abcdef''"

definition fromHexChar :: "char \<Rightarrow> nat option" where
  "fromHexChar c =
     (let n = (of_char c :: nat) in
      if 48 \<le> n \<and> n \<le> 57 then Some (n - 48)
      else if 97 \<le> n \<and> n \<le> 102 then Some (n - 97 + 10)
      else if 65 \<le> n \<and> n \<le> 70 then Some (n - 65 + 10)
      else None)"

fun DecodeString :: "string \<Rightarrow> error + bytes" where
  "DecodeString [] = Inr []"
| "DecodeString [p] =
     (case fromHexChar p of None \<Rightarrow> Inl (HexInvalidByte p) | Some a \<Rightarrow> Inl HexErrLength)"
| "DecodeString (p # q # rest) =
     (case fromHexChar p of
        None \<Rightarrow> Inl (HexInvalidByte p)
      | Some a \<Rightarrow>
     (case fromHexChar q of
        None \<Rightarrow> Inl (HexInvalidByte q)
      | Some b \<Rightarrow>
     (case DecodeString rest of
        Inl e \<Rightarrow> Inl e
      | Inr bs \<Rightarrow> Inr (char_of (a * 16 + b) # bs))))"

definition EncodeToString :: "bytes \<Rightarrow> string" where
  "EncodeToString bs =
     concat (map (\<lambda>c. [hextable ! ((of_char c :: nat) div 16),
                        hextable ! ((of_char c :: nat) mod 16)]) bs)"

text \<open>
  \<^verbatim>\<open>type SchemeManagerIndex map[string]ConfigurationFileHash\<close>. The Go map is an
  association list with distinct keys here, so that its keys can be listed; an
  assignment \<open>i[k] = v\<close> replaces the value of a key that is present and adds the key
  otherwise. The order of the list stands for the order in which Go ranges over the
  map, which the language leaves open.
\<close>

type_synonym ConfigurationFileHash = bytes

type_synonym SchemeManagerIndex = "(string \<times> ConfigurationFileHash) list"

text \<open>
  \<open>SchemeManagerIndex.FromString\<close>. The map is filled in place, so the entries of the
  lines before a malformed one stay in it; the result is the map and the error. The line
  number \<open>j\<close> counts from 0.
\<close>

fun FromString_lines ::
  "SchemeManagerIndex \<Rightarrow> nat \<Rightarrow> string list \<Rightarrow> SchemeManagerIndex \<times> error option" where
  "FromString_lines i j [] = (i, None)"
| "FromString_lines i j (line # rest) =
     (if length line = 0 then FromString_lines i (j + 1) rest
      else (let parts = split_on CHR '' '' line in
        if length parts \<noteq> 2 then (i, Some (IncorrectParts j))
        else (case DecodeString (parts ! 0) of
                Inl err \<Rightarrow> (i, Some err)
              | Inr hash \<Rightarrow> FromString_lines (AList.update (parts ! 1) hash i) (j + 1) rest)))"

definition FromString :: "SchemeManagerIndex \<Rightarrow> string \<Rightarrow> SchemeManagerIndex \<times> error option" where
  "FromString i s = FromString_lines i 0 (split_on (CHR 0x0A) s)"

text \<open>\<open>i[path]\<close>: the empty hash for a key that is absent.\<close>

definition hashOf :: "SchemeManagerIndex \<Rightarrow> string \<Rightarrow> ConfigurationFileHash" where
  "hashOf i path = (case map_of i path of None \<Rightarrow> [] | Some h \<Rightarrow> h)"

text \<open>\<open>SchemeManagerIndex.String\<close>: the keys, sorted by \<^verbatim>\<open>sort.Strings\<close> (bytewise).\<close>

definition String :: "SchemeManagerIndex \<Rightarrow> string" where
  "String i =
     concat (map (\<lambda>path. EncodeToString (hashOf i path) @ '' '' @ path @ [CHR 0x0A])
       (sort (map fst i)))"

text \<open>
  The index format in the words of the specification: a line is a hash in hex, one
  space and a path. The hex digits are those of either case.
\<close>

definition isHexDigit :: "char \<Rightarrow> bool" where
  "isHexDigit c \<longleftrightarrow>
     (CHR ''0'' \<le> c \<and> c \<le> CHR ''9'') \<or> (CHR ''a'' \<le> c \<and> c \<le> CHR ''f'') \<or>
     (CHR ''A'' \<le> c \<and> c \<le> CHR ''F'')"

definition validHex :: "string \<Rightarrow> bool" where
  "validHex h \<longleftrightarrow> even (length h) \<and> list_all isHexDigit h"

definition hashField :: "string \<Rightarrow> string" where
  "hashField line = takeWhile (\<lambda>c. c \<noteq> CHR '' '') line"

definition pathField :: "string \<Rightarrow> string" where
  "pathField line = drop 1 (dropWhile (\<lambda>c. c \<noteq> CHR '' '') line)"

definition twoParts :: "string \<Rightarrow> bool" where
  "twoParts line \<longleftrightarrow> count_list line (CHR '' '') = 1"

definition wellFormedLine :: "string \<Rightarrow> bool" where
  "wellFormedLine line \<longleftrightarrow> line = [] \<or> (twoParts line \<and> validHex (hashField line))"

definition indexLines :: "string \<Rightarrow> string list" where
  "indexLines s = split_on (CHR 0x0A) s"

text \<open>
  The canonical form of an index text in the words of the specification: its entries in
  lexicographic path order, each as the hash in lower case hex, one space, the path and
  a newline. \<open>keepLast\<close> keeps, of the entries with the same path, the last one.
\<close>

definition toLower :: "char \<Rightarrow> char" where
  "toLower c = (if CHR ''A'' \<le> c \<and> c \<le> CHR ''Z'' then char_of ((of_char c :: nat) + 32) else c)"

definition indexEntries :: "string \<Rightarrow> (string \<times> string) list" where
  "indexEntries s = map (\<lambda>l. (pathField l, hashField l)) (filter (\<lambda>l. l \<noteq> []) (indexLines s))"

definition canonicalLine :: "string \<times> string \<Rightarrow> string" where
  "canonicalLine e = map toLower (snd e) @ '' '' @ fst e @ [CHR 0x0A]"

definition canonical_sort :: "(string \<times> string) list \<Rightarrow> string" where
  "canonical_sort es = concat (map canonicalLine (sort_key fst es))"

fun keepLast :: "(string \<times> string) list \<Rightarrow> (string \<times> string) list" where
  "keepLast [] = []"
| "keepLast (e # es) = (if fst e \<in> fst ` set es then keepLast es else e # keepLast es)"

text \<open>The bytes of a hash field that is valid hex.\<close>

definition decodeHex :: "string \<Rightarrow> bytes" where
  "decodeHex h = (case DecodeString h of Inl e \<Rightarrow> [] | Inr bs \<Rightarrow> bs)"

text \<open>
  The callbacks that end a session for the embedder. \<open>Success\<close>, \<open>Cancelled\<close> and
  \<open>Failure\<close> are the three the claim names; the code also ends a session with
  \<open>UnsatisfiableRequest\<close> and nothing after it.
\<close>

fun isTerminalCallback :: "event \<Rightarrow> bool" where
  "isTerminalCallback (Success a) = True"
| "isTerminalCallback (Cancelled a) = True"
| "isTerminalCallback (Failure a e) = True"
| "isTerminalCallback ev = False"

fun isOutcome :: "event \<Rightarrow> bool" where
  "isOutcome (UnsatisfiableRequest a) = True"
| "isOutcome ev = isTerminalCallback ev"

text \<open>A run that ends with its one outcome: no outcome before the last event.\<close>

definition endsInOutcome :: "event list \<Rightarrow> bool" where
  "endsInOutcome run \<longleftrightarrow>
     run \<noteq> [] \<and> isOutcome (last run) \<and> list_all (\<lambda>ev. \<not> isOutcome ev) (butlast run)"

text \<open>
  Two more environments: one in which the credentials asked for are missing, and one of a
  keyshare session whose proof builders fail while the sub-session later reports its
  message.
\<close>

definition unsatisfiableEnv :: session_env where
  "unsatisfiableEnv = acceptingEnv\<lparr>missing := [''irma-demo.RU.studentCard.studentID'']\<rparr>"

definition failingBuildersEnv :: session_env where
  "failingBuildersEnv = acceptingEnv\<lparr>distributed := True,
     buildersResult := Some (ErrLibrary ''proof builders''),
     keyshareOutcome := Some KeyshareDone\<rparr>"

section \<open>The file system and the libraries (irmaconfig.go, internal/fs/fs.go)\<close>

text \<open>
  The disk is an association list from paths to nodes, so that a folder can be listed.
  A node that is \<open>Inaccessible\<close> makes \<^verbatim>\<open>os.Stat\<close> fail with an error that is not "does
  not exist". Paths are taken to be absolute and clean, with separator \<open>/\<close>: for such
  paths \<^verbatim>\<open>filepath.Join\<close> puts a separator between its parts, \<^verbatim>\<open>filepath.ToSlash\<close> is the
  identity and \<^verbatim>\<open>filepath.Base\<close> is the last element.
\<close>

datatype node = File bytes | Dir | Inaccessible

type_synonym filesys = "(string \<times> node) list"

definition Separator :: char where
  "Separator = CHR ''/''"

definition ToSlash :: "string \<Rightarrow> string" where
  "ToSlash path =
     (if Separator = CHR ''/'' then path
      else map (\<lambda>c. if c = Separator then CHR ''/'' else c) path)"

definition Join :: "string \<Rightarrow> string \<Rightarrow> string" where
  "Join a b = (if b = [] then a else if a = [] then b else a @ [Separator] @ b)"

definition Base :: "string \<Rightarrow> string" where
  "Base path = last (split_on Separator path)"

datatype stat = StatOK bool | StatNotExist | StatError error

definition Stat :: "filesys \<Rightarrow> string \<Rightarrow> stat" where
  "Stat disk path =
     (case map_of disk path of
        None \<Rightarrow> StatNotExist
      | Some (File b) \<Rightarrow> StatOK False
      | Some Dir \<Rightarrow> StatOK True
      | Some Inaccessible \<Rightarrow> StatError (ErrIO path))"

text \<open>\<open>fs.PathExists\<close>: the pair of Go, \<open>(true, err)\<close> for an error other than "does not exist".\<close>

definition PathExists :: "filesys \<Rightarrow> string \<Rightarrow> bool \<times> error option" where
  "PathExists disk path =
     (case Stat disk path of
        StatOK d \<Rightarrow> (True, None)
      | StatNotExist \<Rightarrow> (False, None)
      | StatError e \<Rightarrow> (True, Some e))"

fun AssertPathExists :: "filesys \<Rightarrow> string list \<Rightarrow> error option" where
  "AssertPathExists disk [] = None"
| "AssertPathExists disk (p # paths) =
     (case PathExists disk p of
        (exist, Some err) \<Rightarrow> Some err
      | (exist, None) \<Rightarrow>
          if \<not> exist then Some (ErrNotExist p) else AssertPathExists disk paths)"

text \<open>\<^verbatim>\<open>ioutil.ReadFile\<close>: the bytes of a regular file, an error for everything else.\<close>

definition ReadFile :: "filesys \<Rightarrow> string \<Rightarrow> error + bytes" where
  "ReadFile disk path =
     (case map_of disk path of
        Some (File b) \<Rightarrow> Inr b
      | Some n \<Rightarrow> Inl (ErrIO path)
      | None \<Rightarrow> Inl (ErrNotExist path))"

text \<open>
  The functions of the Go library and of other packages that the configuration calls:
  SHA-256, PEM and PKIX decoding, ASN.1, ECDSA, XML, regular expressions and the HTTP
  transport. They are the environment of the model; a theorem that quantifies over the
  environment holds whatever they compute. Those that decode untrusted bytes may panic.
  \<open>asn1Unmarshal\<close> gives the slice \<open>ints\<close> as \<^verbatim>\<open>asn1.Unmarshal(sig, &ints)\<close> leaves it (the
  code drops the error of the call). \<open>xmlUnmarshal\<close> gives the fields that a scheme
  description sets. Three parts of the configuration that only read the disk are taken
  from the environment as well, since they rest on XML and on regular expressions:
  \<open>checkTranslations\<close> (the warnings for a label), \<open>checkUnsignedFiles\<close> (warnings and
  error for the files of a scheme folder that are not in its index) and
  \<open>parseIssuerFolders\<close> (what the issuers and credential types of a scheme folder add to
  the maps of the configuration). \<open>randomName\<close> is the name that \<open>fs.SaveFile\<close> draws for
  its temporary file, \<open>httpGet\<close> the body that a GET of a name under a server URL
  returns, and \<open>issuerOfPath\<close> and \<open>credentialTypeOfPath\<close> the identifiers that the two
  regular expressions of \<open>UpdateSchemeManager\<close> find in a path.
\<close>

datatype publicKey = EcdsaPublicKey nat | OtherPublicKey

record SchemeDescription =
  descID :: string
  descURL :: string
  descXMLVersion :: int
  descKeyshareServer :: string

text \<open>
  What parsing the issuer folders of a scheme adds to the configuration: issuers,
  credential types, attribute types, reverse hashes and warnings.
\<close>

record parsedContent =
  parsedIssuers :: "(string \<times> bytes) list"
  parsedCredentialTypes :: "(string \<times> bytes) list"
  parsedAttributeTypes :: "(string \<times> bytes) list"
  parsedReverseHashes :: "(string \<times> string) list"
  parsedWarnings :: "string list"

record library =
  sha256 :: "bytes \<Rightarrow> bytes"
  pemDecode :: "bytes \<Rightarrow> bytes option go_result"
  ParsePKIXPublicKey :: "bytes \<Rightarrow> (error + publicKey) go_result"
  asn1Unmarshal :: "bytes \<Rightarrow> int list go_result"
  ecdsaVerify :: "nat \<Rightarrow> bytes \<Rightarrow> int \<Rightarrow> int \<Rightarrow> bool go_result"
  xmlUnmarshal :: "bytes \<Rightarrow> error + SchemeDescription"
  parseTimestamp :: "bytes \<Rightarrow> error + int"
  httpGet :: "string \<Rightarrow> string \<Rightarrow> error + bytes"
  issuerOfPath :: "string \<Rightarrow> string option"
  credentialTypeOfPath :: "string \<Rightarrow> string option"
  translationWarnings :: "string \<Rightarrow> string list"
  randomName :: "filesys \<Rightarrow> string"
  unsignedFileWarnings :: "filesys \<Rightarrow> string \<Rightarrow> string \<Rightarrow> (string \<times> bytes) list \<Rightarrow>
     string list \<times> error option"
  issuerFolders :: "filesys \<Rightarrow> string \<Rightarrow> string \<Rightarrow> (string \<times> bytes) list \<Rightarrow> parsedContent \<Rightarrow>
     parsedContent \<times> error option"

section \<open>The configuration (irmaconfig.go)\<close>

text \<open>
  The scheme manager, with the fields that the code at hand reads or writes. (The field
  \<open>URL\<close> of the source is \<open>ManagerURL\<close> here, since the QR code has a field \<open>URL\<close> already.)
  A timestamp is the number of seconds since the epoch.
\<close>

record SchemeManager =
  ID :: string
  ManagerURL :: string
  XMLVersion :: int
  KeyshareServer :: string
  Status :: SchemeManagerStatus
  Valid :: bool
  Timestamp :: int
  index :: SchemeManagerIndex

text \<open>
  The configuration. Its maps are association lists with distinct keys, like the
  index. The values of the issuers, credential types and keys are declared outside the
  files at hand; the maps keep their identifiers (dotted names) with the bytes of their
  descriptions.
\<close>

record Configuration =
  SchemeManagers :: "(string \<times> SchemeManager) list"
  Issuers :: "(string \<times> bytes) list"
  CredentialTypes :: "(string \<times> bytes) list"
  AttributeTypes :: "(string \<times> bytes) list"
  Path :: string
  DisabledSchemeManagers :: "(string \<times> error) list"
  Warnings :: "string list"
  publicKeys :: "(string \<times> (int \<times> bytes) list) list"
  reverseHashes :: "(string \<times> string) list"
  initialized :: bool
  assets :: string
  readOnly :: bool

text \<open>
  \<open>ReadAuthenticatedFile\<close>: the triple of Go, \<open>(bytes, found, err)\<close>, with \<open>None\<close> for \<open>nil\<close>.
\<close>

definition ReadAuthenticatedFile ::
  "library \<Rightarrow> filesys \<Rightarrow> Configuration \<Rightarrow> SchemeManager \<Rightarrow> string \<Rightarrow>
     bytes option \<times> bool \<times> error option" where
  "ReadAuthenticatedFile lib disk conf manager path =
     (case map_of (index manager) (ToSlash path) of
        None \<Rightarrow> (None, False, None)
      | Some signedHash \<Rightarrow>
     (case ReadFile disk (Join (Path conf) path) of
        Inl err \<Rightarrow> (None, True, Some err)
      | Inr bts \<Rightarrow>
          if sha256 lib bts \<noteq> signedHash then (None, True, Some (ErrHashMismatch path))
          else (Some bts, True, None)))"

text \<open>
  \<open>ParsePemEcdsaPublicKey\<close>: \<^verbatim>\<open>pkblk.Bytes\<close> dereferences the block, which is \<open>nil\<close> when
  the bytes hold no PEM block.
\<close>

definition ParsePemEcdsaPublicKey :: "library \<Rightarrow> bytes \<Rightarrow> (error + nat) go_result" where
  "ParsePemEcdsaPublicKey lib pkbts =
     (case pemDecode lib pkbts of
        Panicked p \<Rightarrow> Panicked p
      | Returned None \<Rightarrow> Panicked NilDereference
      | Returned (Some blockBytes) \<Rightarrow>
     (case ParsePKIXPublicKey lib blockBytes of
        Panicked p \<Rightarrow> Panicked p
      | Returned (Inl err) \<Rightarrow> Returned (Inl err)
      | Returned (Inr (EcdsaPublicKey pk)) \<Rightarrow> Returned (Inr pk)
      | Returned (Inr OtherPublicKey) \<Rightarrow> Returned (Inl ErrInvalidPublicKey)))"

text \<open>The body of \<open>VerifySignature\<close>, which may panic, and its deferred \<open>recover\<close>.\<close>

definition VerifySignature_body ::
  "library \<Rightarrow> filesys \<Rightarrow> Configuration \<Rightarrow> string \<Rightarrow> error option go_result" where
  "VerifySignature_body lib disk conf scheme =
     (let dir = Join (Path conf) scheme in
      case AssertPathExists disk [dir @ ''/index'', dir @ ''/index.sig'', dir @ ''/pk.pem''] of
        Some err \<Rightarrow> Returned (Some ErrMissingIndexFiles)
      | None \<Rightarrow>
     (case ReadFile disk (dir @ ''/index'') of
        Inl err \<Rightarrow> Returned (Some err)
      | Inr indexbts \<Rightarrow>
     (let indexhash = sha256 lib indexbts in
      case ReadFile disk (dir @ ''/pk.pem'') of
        Inl err \<Rightarrow> Returned (Some err)
      | Inr pkbts \<Rightarrow>
     (case ParsePemEcdsaPublicKey lib pkbts of
        Panicked p \<Rightarrow> Panicked p
      | Returned (Inl err) \<Rightarrow> Returned (Some err)
      | Returned (Inr pk) \<Rightarrow>
     (case ReadFile disk (dir @ ''/index.sig'') of
        Inl err \<Rightarrow> Returned (Some err)
      | Inr sig \<Rightarrow>
     (case asn1Unmarshal lib sig of
        Panicked p \<Rightarrow> Panicked p
      | Returned ints \<Rightarrow>
          if length ints < 2 then Panicked IndexOutOfRange
          else (case ecdsaVerify lib pk indexhash (ints ! 0) (ints ! 1) of
                  Panicked p \<Rightarrow> Panicked p
                | Returned ok \<Rightarrow>
                    if \<not> ok then Returned (Some ErrSignatureInvalid)
                    else Returned None)))))))"

definition VerifySignature ::
  "library \<Rightarrow> filesys \<Rightarrow> Configuration \<Rightarrow> string \<Rightarrow> error option go_result" where
  "VerifySignature lib disk conf scheme =
     (case VerifySignature_body lib disk conf scheme of
        Panicked r \<Rightarrow> Returned (Some (ErrSignatureFailedToVerify r))
      | Returned err \<Rightarrow> Returned err)"

text \<open>
  \<open>VerifySchemeManager\<close>: the loop over the index skips a file that is not on disk.
\<close>

fun verifyFiles ::
  "library \<Rightarrow> filesys \<Rightarrow> Configuration \<Rightarrow> SchemeManager \<Rightarrow>
     (string \<times> ConfigurationFileHash) list \<Rightarrow> error option" where
  "verifyFiles lib disk conf manager [] = None"
| "verifyFiles lib disk conf manager ((file, h) # rest) =
     (case PathExists disk (Join (Path conf) file) of
        (exist, Some err) \<Rightarrow> Some err
      | (exist, None) \<Rightarrow>
          if \<not> exist then verifyFiles lib disk conf manager rest
          else (case ReadAuthenticatedFile lib disk conf manager file of
                  (bts, found, Some err) \<Rightarrow> Some err
                | (bts, found, None) \<Rightarrow> verifyFiles lib disk conf manager rest))"

definition VerifySchemeManager ::
  "library \<Rightarrow> filesys \<Rightarrow> Configuration \<Rightarrow> SchemeManager \<Rightarrow> error option go_result" where
  "VerifySchemeManager lib disk conf manager =
     (case VerifySignature lib disk conf (ID manager) of
        Panicked p \<Rightarrow> Panicked p
      | Returned (Some err) \<Rightarrow> Returned (Some err)
      | Returned None \<Rightarrow> Returned (verifyFiles lib disk conf manager (index manager)))"

text \<open>
  The three failures of the specification, read off the triple that
  \<open>ReadAuthenticatedFile\<close> returns: a path that is not indexed is reported by
  \<open>found = false\<close> (with no bytes and a \<open>nil\<close> error value), the two others by an error.
\<close>

datatype readFailure = NotIndexed | HashMismatch | IOError

fun failureOf :: "bytes option \<times> bool \<times> error option \<Rightarrow> readFailure option" where
  "failureOf (None, False, None) = Some NotIndexed"
| "failureOf (None, True, Some (ErrHashMismatch p)) = Some HashMismatch"
| "failureOf (None, True, Some e) = Some IOError"
| "failureOf r = None"

text \<open>
  A library to evaluate the model on. Its functions stand in for the real ones: the
  hash is the length of the bytes and their first byte, a PEM block is any text that is not
  empty, the key \<open>ec\<close> is an ECDSA key and \<open>rsa\<close> another one, a signature holds one
  integer for each of its bytes, and it verifies when its first integer is the length
  of the hash.
\<close>

definition checksum :: "bytes \<Rightarrow> bytes" where
  "checksum b = char_of (length b) # take 1 b"

definition testLibrary :: library where
  "testLibrary = \<lparr>
     sha256 = checksum,
     pemDecode = (\<lambda>b. Returned (if b = [] then None else Some b)),
     ParsePKIXPublicKey = (\<lambda>b. Returned (if b = ''ec'' then Inr (EcdsaPublicKey 1)
                                else if b = ''rsa'' then Inr OtherPublicKey
                                else Inl (ErrLibrary ''x509''))),
     asn1Unmarshal = (\<lambda>sig. Returned (map (\<lambda>c. int (of_char c)) sig)),
     ecdsaVerify = (\<lambda>pk h r s. Returned (r = int (length h))),
     xmlUnmarshal = (\<lambda>b. if b = [] then Inl (ErrLibrary ''xml'')
                        else Inr \<lparr>descID = b, descURL = ''https://example.com/'' @ b,
                                  descXMLVersion = 7, descKeyshareServer = []\<rparr>),
     parseTimestamp = Atoi,
     httpGet = (\<lambda>url name. Inl (ErrLibrary ''offline'')),
     issuerOfPath = (\<lambda>path. None),
     credentialTypeOfPath = (\<lambda>path. None),
     translationWarnings = (\<lambda>label. []),
     randomName = (\<lambda>disk. ''0123456789abcdef0123456789abcdef''),
     unsignedFileWarnings = (\<lambda>disk root name idx. ([], None)),
     issuerFolders = (\<lambda>disk root dir idx content. (content, None))\<rparr>"

text \<open>
  \<open>relativePath\<close>, for absolute clean paths (\<^verbatim>\<open>filepath.Abs\<close> leaves them as they are). The
  slice \<^verbatim>\<open>innerAbs[len(outerAbs)+1:]\<close> is out of range when the two paths are equal.
\<close>

definition relativePath :: "string \<Rightarrow> string \<Rightarrow> (error + string) go_result" where
  "relativePath outer inner =
     (if take (length outer) inner \<noteq> outer then Returned (Inl ErrNotContained)
      else if length inner < length outer + 1 then Panicked SliceBoundsOutOfRange
      else Returned (Inr (drop (length outer + 1) inner)))"

text \<open>\<open>parseIndex\<close>: the index and the error, as Go returns them (\<open>nil\<close> is the empty index).\<close>

definition parseIndex ::
  "library \<Rightarrow> filesys \<Rightarrow> Configuration \<Rightarrow> string \<Rightarrow>
     SchemeManagerIndex \<times> string list \<times> error option" where
  "parseIndex lib disk conf name =
     (let path = Join (Join (Path conf) name) ''index'' in
      case AssertPathExists disk [path] of
        Some err \<Rightarrow> ([], [], Some (ErrMissingIndex path))
      | None \<Rightarrow>
     (case ReadFile disk path of
        Inl err \<Rightarrow> ([], [], Some err)
      | Inr indexbts \<Rightarrow>
     (case FromString [] indexbts of
        (idx, Some err) \<Rightarrow> ([], [], Some err)
      | (idx, None) \<Rightarrow>
          (case unsignedFileWarnings lib disk (Path conf) name idx of
             (warnings, err) \<Rightarrow> (idx, warnings, err)))))"

text \<open>
  \<open>pathToDescription\<close> for the description of a scheme manager: whether the file exists,
  the error, and the fields parsed. When the file is not in the index the code takes
  the folder name from some key of the index, up to its first separator; the slice
  \<^verbatim>\<open>p[0:strings.Index(p, "/")]\<close> is out of range for a key without separator.
\<close>

definition pathToDescription ::
  "library \<Rightarrow> filesys \<Rightarrow> Configuration \<Rightarrow> SchemeManager \<Rightarrow> string \<Rightarrow>
     (bool \<times> error option \<times> SchemeDescription option) go_result" where
  "pathToDescription lib disk conf manager path =
     (case Stat disk path of
        StatNotExist \<Rightarrow> Returned (False, None, None)
      | StatError e \<Rightarrow> Returned (False, None, None)
      | StatOK d \<Rightarrow>
     (case relativePath (Path conf) path of
        Panicked p \<Rightarrow> Panicked p
      | Returned (Inl err) \<Rightarrow> Returned (False, Some err, None)
      | Returned (Inr relativepath) \<Rightarrow>
     (case ReadAuthenticatedFile lib disk conf manager relativepath of
        (bts, False, err) \<Rightarrow>
          (case index manager of
             [] \<Rightarrow> Returned (False, Some ErrEmpty, None)
           | (p, h) # rest \<Rightarrow>
               if CHR ''/'' \<notin> set p then Panicked SliceBoundsOutOfRange
               else Returned (False,
                      Some (ErrFolderName (takeWhile (\<lambda>c. c \<noteq> CHR ''/'') p) (ID manager)), None))
      | (bts, True, Some err) \<Rightarrow> Returned (True, Some err, None)
      | (None, True, None) \<Rightarrow> Returned (True, Some (ErrLibrary ''xml''), None)
      | (Some bts, True, None) \<Rightarrow>
          (case xmlUnmarshal lib bts of
             Inl err \<Rightarrow> Returned (True, Some err, None)
           | Inr d \<Rightarrow> Returned (True, None, Some d)))))"

definition describe :: "SchemeManager \<Rightarrow> SchemeDescription \<Rightarrow> SchemeManager" where
  "describe manager d = manager\<lparr>ID := descID d, ManagerURL := descURL d,
     XMLVersion := descXMLVersion d, KeyshareServer := descKeyshareServer d\<rparr>"

text \<open>\<open>checkScheme\<close>: the scheme with its status, the warnings and the error.\<close>

definition checkScheme ::
  "library \<Rightarrow> filesys \<Rightarrow> SchemeManager \<Rightarrow> string \<Rightarrow> SchemeManager \<times> string list \<times> error option" where
  "checkScheme lib disk scheme dir =
     (if XMLVersion scheme < 7 then
        (scheme\<lparr>Status := SchemeManagerStatusParsingError\<rparr>, [], Some ErrUnsupportedScheme)
      else if Base dir \<noteq> ID scheme then
        (scheme\<lparr>Status := SchemeManagerStatusParsingError\<rparr>, [],
         Some (ErrWrongDirectory (ID scheme) (Base dir)))
      else if KeyshareServer scheme \<noteq> [] \<and>
              AssertPathExists disk [Join dir ''kss-0.pem''] \<noteq> None then
        (scheme\<lparr>Status := SchemeManagerStatusParsingError\<rparr>, [],
         Some (ErrNoKeysharePublicKey (ID scheme)))
      else (scheme, translationWarnings lib (''Scheme '' @ ID scheme), None))"

text \<open>
  Modelled from the spec: \<open>readTimestamp\<close> is not in the files at hand. The file
  \<open>timestamp\<close> holds the seconds since the epoch in ASCII; the result is the timestamp,
  whether the file exists, and the error.
\<close>

definition readTimestamp :: "library \<Rightarrow> filesys \<Rightarrow> string \<Rightarrow> int option \<times> bool \<times> error option" where
  "readTimestamp lib disk path =
     (case PathExists disk path of
        (exist, Some err) \<Rightarrow> (None, False, Some err)
      | (False, None) \<Rightarrow> (None, False, None)
      | (True, None) \<Rightarrow>
     (case ReadFile disk path of
        Inl err \<Rightarrow> (None, True, Some ErrTimestamp)
      | Inr bts \<Rightarrow>
     (case parseTimestamp lib bts of
        Inl err \<Rightarrow> (None, True, Some err)
      | Inr ts \<Rightarrow> (Some ts, True, None))))"

definition contentOf :: "Configuration \<Rightarrow> parsedContent" where
  "contentOf conf = \<lparr>parsedIssuers = Issuers conf, parsedCredentialTypes = CredentialTypes conf,
     parsedAttributeTypes = AttributeTypes conf, parsedReverseHashes = reverseHashes conf,
     parsedWarnings = Warnings conf\<rparr>"

definition withContent :: "Configuration \<Rightarrow> parsedContent \<Rightarrow> Configuration" where
  "withContent conf c = conf\<lparr>Issuers := parsedIssuers c, CredentialTypes := parsedCredentialTypes c,
     AttributeTypes := parsedAttributeTypes c, reverseHashes := parsedReverseHashes c,
     Warnings := parsedWarnings c\<rparr>"

definition warn :: "Configuration \<Rightarrow> string list \<Rightarrow> Configuration" where
  "warn conf ws = conf\<lparr>Warnings := Warnings conf @ ws\<rparr>"

text \<open>
  The steps of \<open>ParseSchemeManagerFolder\<close> after the manager is put into the map: the
  configuration, the manager as the steps leave it, and the error.
\<close>

definition parseSchemeManagerSteps ::
  "library \<Rightarrow> filesys \<Rightarrow> Configuration \<Rightarrow> string \<Rightarrow> SchemeManager \<Rightarrow>
     (Configuration \<times> SchemeManager \<times> error option) go_result" where
  "parseSchemeManagerSteps lib disk conf dir manager =
     (case VerifySignature lib disk conf (ID manager) of
        Panicked p \<Rightarrow> Panicked p
      | Returned (Some err) \<Rightarrow> Returned (conf, manager, Some err)
      | Returned None \<Rightarrow>
     (case parseIndex lib disk conf (Base dir) of
        (idx, ws, Some err) \<Rightarrow>
          Returned (warn conf ws,
            manager\<lparr>index := idx, Status := SchemeManagerStatusInvalidIndex\<rparr>, Some err)
      | (idx, ws, None) \<Rightarrow>
     (let conf1 = warn conf ws; manager1 = manager\<lparr>index := idx\<rparr> in
      case pathToDescription lib disk conf1 manager1 (dir @ ''/description.xml'') of
        Panicked p \<Rightarrow> Panicked p
      | Returned (exist, Some err, d) \<Rightarrow>
          Returned (conf1, manager1\<lparr>Status := SchemeManagerStatusParsingError\<rparr>, Some err)
      | Returned (False, None, d) \<Rightarrow>
          Returned (conf1, manager1\<lparr>Status := SchemeManagerStatusParsingError\<rparr>,
            Some ErrDescriptionNotFound)
      | Returned (True, None, None) \<Rightarrow>
          Returned (conf1, manager1\<lparr>Status := SchemeManagerStatusParsingError\<rparr>,
            Some ErrDescriptionNotFound)
      | Returned (True, None, Some d) \<Rightarrow>
     (case checkScheme lib disk (describe manager1 d) dir of
        (manager2, ws2, Some err) \<Rightarrow> Returned (conf1, manager2, Some err)
      | (manager2, ws2, None) \<Rightarrow>
     (let conf2 = warn conf1 ws2 in
      case VerifySchemeManager lib disk conf2 manager2 of
        Panicked p \<Rightarrow> Panicked p
      | Returned (Some err) \<Rightarrow>
          Returned (conf2, manager2\<lparr>Status := SchemeManagerStatusInvalidSignature\<rparr>, Some err)
      | Returned None \<Rightarrow>
     (case readTimestamp lib disk (dir @ ''/timestamp'') of
        (ts, exist, Some err) \<Rightarrow> Returned (conf2, manager2, Some ErrTimestamp)
      | (ts, False, None) \<Rightarrow> Returned (conf2, manager2, Some ErrTimestamp)
      | (None, True, None) \<Rightarrow> Returned (conf2, manager2, Some ErrTimestamp)
      | (Some t, True, None) \<Rightarrow>
     (let manager3 = manager2\<lparr>Timestamp := t\<rparr> in
      case issuerFolders lib disk (Path conf2) dir (index manager3) (contentOf conf2) of
        (content, Some err) \<Rightarrow>
          Returned (withContent conf2 content,
            manager3\<lparr>Status := SchemeManagerStatusContentParsingError\<rparr>, Some err)
      | (content, None) \<Rightarrow>
          Returned (withContent conf2 content,
            manager3\<lparr>Status := SchemeManagerStatusValid, Valid := True\<rparr>, None))))))))"

text \<open>
  \<open>ParseSchemeManagerFolder\<close>. The map holds a pointer to the manager, under the
  identifier the manager has on entry, so it sees every later change of the manager;
  the deferred function wraps the error with the identifier and status of the manager
  on return.
\<close>

definition ParseSchemeManagerFolder ::
  "library \<Rightarrow> filesys \<Rightarrow> Configuration \<Rightarrow> string \<Rightarrow> SchemeManager \<Rightarrow>
     (Configuration \<times> error option) go_result" where
  "ParseSchemeManagerFolder lib disk conf dir manager =
     (case parseSchemeManagerSteps lib disk conf dir manager of
        Panicked p \<Rightarrow> Panicked p
      | Returned (conf', manager', err) \<Rightarrow>
          Returned
            (conf'\<lparr>SchemeManagers := AList.update (ID manager) manager' (SchemeManagers conf')\<rparr>,
             (case err of
                None \<Rightarrow> None
              | Some e \<Rightarrow> Some (SchemeManagerError (ID manager') (Status manager') e))))"

text \<open>
  Modelled from the spec: \<open>NewSchemeManager\<close> is not in the files at hand. A scheme
  manager that has just been created has the status \<open>Unprocessed\<close> and is not valid.
\<close>

definition NewSchemeManager :: "string \<Rightarrow> SchemeManager" where
  "NewSchemeManager name = \<lparr>ID = name, ManagerURL = [], XMLVersion = 0, KeyshareServer = [],
     Status = SchemeManagerStatusUnprocessed, Valid = False, Timestamp = 0, index = []\<rparr>"

text \<open>
  A configuration folder to evaluate the model on: the scheme \<open>irma-demo\<close> with its
  description, index, signature, key and timestamp. The index also lists the
  description of the issuer \<open>RU\<close>, which is not on the disk.
\<close>

definition demoIndex :: SchemeManagerIndex where
  "demoIndex = [(''irma-demo/description.xml'', checksum ''irma-demo''),
                (''irma-demo/RU/description.xml'', checksum ''RU'')]"

definition demoDisk :: filesys where
  "demoDisk = [(''/conf'', Dir), (''/conf/irma-demo'', Dir),
     (''/conf/irma-demo/description.xml'', File ''irma-demo''),
     (''/conf/irma-demo/index'', File (String demoIndex)),
     (''/conf/irma-demo/index.sig'', File [CHR 0x02, CHR 0x00]),
     (''/conf/irma-demo/pk.pem'', File ''ec''),
     (''/conf/irma-demo/timestamp'', File ''100'')]"

definition demoConf :: Configuration where
  "demoConf = \<lparr>SchemeManagers = [], Issuers = [], CredentialTypes = [], AttributeTypes = [],
     Path = ''/conf'', DisabledSchemeManagers = [], Warnings = [], publicKeys = [],
     reverseHashes = [], initialized = False, assets = [], readOnly = False\<rparr>"

definition demoManager :: SchemeManager where
  "demoManager = \<lparr>ID = ''irma-demo'', ManagerURL = ''https://example.com/irma-demo'',
     XMLVersion = 7, KeyshareServer = [], Status = SchemeManagerStatusValid, Valid = True,
     Timestamp = 100, index = rev demoIndex\<rparr>"

definition demoDescription :: SchemeDescription where
  "demoDescription = \<lparr>descID = ''irma-demo'', descURL = ''https://example.com/irma-demo'',
                                  descXMLVersion = 7, descKeyshareServer = []\<rparr>"

text \<open>
  The bytes that \<open>VerifySignature\<close> reads when the three files of a scheme are there:
  the index, the public key and the signature.
\<close>

definition signatureInputs :: "filesys \<Rightarrow> Configuration \<Rightarrow> string \<Rightarrow> (bytes \<times> bytes \<times> bytes) option" where
  "signatureInputs disk conf scheme =
     (let dir = Join (Path conf) scheme in
      if AssertPathExists disk [dir @ ''/index'', dir @ ''/index.sig'', dir @ ''/pk.pem''] \<noteq> None
      then None
      else (case (ReadFile disk (dir @ ''/index''), ReadFile disk (dir @ ''/pk.pem''),
                  ReadFile disk (dir @ ''/index.sig'')) of
              (Inr indexbts, Inr pkbts, Inr sig) \<Rightarrow> Some (indexbts, pkbts, sig)
            | _ \<Rightarrow> None))"

text \<open>
  Three damaged copies of the demo folder: the key file holds no PEM block, the
  signature holds one integer only, and the description has one byte changed.
\<close>

definition noPemDisk :: filesys where
  "noPemDisk = AList.update ''/conf/irma-demo/pk.pem'' (File []) demoDisk"

definition shortSignatureDisk :: filesys where
  "shortSignatureDisk = AList.update ''/conf/irma-demo/index.sig'' (File [CHR 0x02]) demoDisk"

definition tamperedDisk :: filesys where
  "tamperedDisk = AList.update ''/conf/irma-demo/description.xml'' (File ''Irma-demo'') demoDisk"

section \<open>Writing to the disk (internal/fs/fs.go)\<close>

text \<open>\<^verbatim>\<open>strings.Join\<close>, and \<^verbatim>\<open>path.Dir\<close> for clean paths: all but the last element.\<close>

fun joinWith :: "char \<Rightarrow> string list \<Rightarrow> string" where
  "joinWith sep [] = []"
| "joinWith sep [x] = x"
| "joinWith sep (x # y # ys) = x @ [sep] @ joinWith sep (y # ys)"

definition DirOf :: "string \<Rightarrow> string" where
  "DirOf path =
     (let d = joinWith Separator (butlast (split_on Separator path)) in
      if d \<noteq> [] then d else if take 1 path = [Separator] then [Separator] else ''.'')"

text \<open>The path and the folders above it, from the root down.\<close>

definition ancestors :: "string \<Rightarrow> string list" where
  "ancestors path =
     filter (\<lambda>p. p \<noteq> [])
       (map (\<lambda>n. joinWith Separator (take n (split_on Separator path)))
         [1 ..< length (split_on Separator path) + 1])"

fun mkdirs :: "filesys \<Rightarrow> string list \<Rightarrow> filesys \<times> error option" where
  "mkdirs disk [] = (disk, None)"
| "mkdirs disk (p # ps) =
     (case map_of disk p of
        None \<Rightarrow> mkdirs (AList.update p Dir disk) ps
      | Some Dir \<Rightarrow> mkdirs disk ps
      | Some n \<Rightarrow> (disk, Some (ErrIO p)))"

definition MkdirAll :: "filesys \<Rightarrow> string \<Rightarrow> filesys \<times> error option" where
  "MkdirAll disk path = mkdirs disk (ancestors path)"

definition EnsureDirectoryExists :: "filesys \<Rightarrow> string \<Rightarrow> filesys \<times> error option" where
  "EnsureDirectoryExists disk path =
     (case PathExists disk path of
        (exist, Some err) \<Rightarrow> (disk, Some err)
      | (exist, None) \<Rightarrow> if exist then (disk, None) else MkdirAll disk path)"

text \<open>
  \<open>fs.SaveFile\<close>: the content goes to a temporary file of a random name in the same
  folder, which is then renamed to the path.
\<close>

definition SaveFile :: "library \<Rightarrow> filesys \<Rightarrow> string \<Rightarrow> bytes \<Rightarrow> filesys \<times> error option" where
  "SaveFile lib disk fpath content =
     (let dir = DirOf fpath; temp = Join dir (randomName lib disk) in
      if map_of disk dir \<noteq> Some Dir then (disk, Some (ErrIO temp))
      else if map_of disk temp = Some Dir \<or> map_of disk temp = Some Inaccessible
        then (disk, Some (ErrIO temp))
      else (let disk1 = AList.update temp (File content) disk in
        if map_of disk1 fpath = Some Dir \<or> map_of disk1 fpath = Some Inaccessible
        then (disk1, Some (ErrIO fpath))
        else (AList.update fpath (File content) (AList.delete temp disk1), None)))"

text \<open>\<^verbatim>\<open>os.RemoveAll\<close>: the path and everything below it; a path that is absent is no error.\<close>

definition below :: "string \<Rightarrow> string \<Rightarrow> bool" where
  "below dir path \<longleftrightarrow> take (length dir + 1) path = dir @ [Separator]"

definition RemoveAll :: "filesys \<Rightarrow> string \<Rightarrow> filesys \<times> error option" where
  "RemoveAll disk path = (filter (\<lambda>(p, n). p \<noteq> path \<and> \<not> below path p) disk, None)"

text \<open>
  \<^verbatim>\<open>filepath.Glob(path + "/*")\<close>: the entries of a folder, sorted. \<^verbatim>\<open>filepath.Walk\<close>: the
  root and everything below it.
\<close>

definition children :: "filesys \<Rightarrow> string \<Rightarrow> string list" where
  "children disk dir =
     sort (filter (\<lambda>p. below dir p \<and> drop (length dir + 1) p \<noteq> [] \<and>
                        Separator \<notin> set (drop (length dir + 1) p)) (map fst disk))"

definition walk :: "filesys \<Rightarrow> string \<Rightarrow> (string \<times> node) list" where
  "walk disk root = sort_key fst (filter (\<lambda>(p, n). p = root \<or> below root p) disk)"

text \<open>
  \<open>fs.CopyDirectory\<close>. The function given to \<^verbatim>\<open>filepath.Walk\<close> reads \<^verbatim>\<open>info.IsDir()\<close> without
  looking at the error, and \<open>info\<close> is \<open>nil\<close> for an entry that cannot be read.
\<close>

fun copyEntries ::
  "library \<Rightarrow> filesys \<Rightarrow> string \<Rightarrow> string \<Rightarrow> (string \<times> node) list \<Rightarrow>
     (filesys \<times> error option) go_result" where
  "copyEntries lib disk src dest [] = Returned (disk, None)"
| "copyEntries lib disk src dest ((path, n) # rest) =
     (if path = src then copyEntries lib disk src dest rest
      else (let subpath = drop (length src) path in
        case n of
          Inaccessible \<Rightarrow> Panicked NilDereference
        | Dir \<Rightarrow>
            (case EnsureDirectoryExists disk (dest @ subpath) of
               (disk', Some err) \<Rightarrow> Returned (disk', Some err)
             | (disk', None) \<Rightarrow> copyEntries lib disk' src dest rest)
        | File bts \<Rightarrow>
            (case SaveFile lib disk (dest @ subpath) bts of
               (disk', Some err) \<Rightarrow> Returned (disk', Some err)
             | (disk', None) \<Rightarrow> copyEntries lib disk' src dest rest)))"

definition CopyDirectory ::
  "library \<Rightarrow> filesys \<Rightarrow> string \<Rightarrow> string \<Rightarrow> (filesys \<times> error option) go_result" where
  "CopyDirectory lib disk src dest =
     (case EnsureDirectoryExists disk dest of
        (disk', Some err) \<Rightarrow> Returned (disk', Some err)
      | (disk', None) \<Rightarrow>
          (case map_of disk' src of
             None \<Rightarrow> Panicked NilDereference
           | Some Inaccessible \<Rightarrow> Panicked NilDereference
           | Some n \<Rightarrow> copyEntries lib disk' src dest (walk disk' src)))"

text \<open>
  Modelled from the spec: the HTTP transport is not in the files at hand. \<open>GetBytes\<close>
  gets a name under the URL of the server; \<open>GetFile\<close> saves what it gets at a path;
  \<open>GetSignedFile\<close> checks that what it gets has the hash given before it saves it
  ("fetch-with-hash-check").
\<close>

definition GetBytes :: "library \<Rightarrow> string \<Rightarrow> string \<Rightarrow> error + bytes" where
  "GetBytes lib server name = httpGet lib server name"

definition GetFile ::
  "library \<Rightarrow> filesys \<Rightarrow> string \<Rightarrow> string \<Rightarrow> string \<Rightarrow> filesys \<times> error option" where
  "GetFile lib disk server name dest =
     (case GetBytes lib server name of
        Inl err \<Rightarrow> (disk, Some err)
      | Inr b \<Rightarrow> SaveFile lib disk dest b)"

definition GetSignedFile ::
  "library \<Rightarrow> filesys \<Rightarrow> string \<Rightarrow> string \<Rightarrow> string \<Rightarrow> ConfigurationFileHash \<Rightarrow>
     filesys \<times> error option" where
  "GetSignedFile lib disk server name dest hash =
     (case GetBytes lib server name of
        Inl err \<Rightarrow> (disk, Some err)
      | Inr b \<Rightarrow>
          if sha256 lib b \<noteq> hash then (disk, Some (ErrHashMismatch dest))
          else SaveFile lib disk dest b)"

section \<open>Installing, updating and removing schemes (irmaconfig.go)\<close>

text \<open>
  Modelled from the spec: the identifier types are not in the files at hand. An
  identifier is a dotted name; its parent is the name without its last segment.
\<close>

definition Parent :: "string \<Rightarrow> string" where
  "Parent ident = joinWith (CHR ''.'') (butlast (split_on (CHR ''.'') ident))"

definition Root :: "string \<Rightarrow> string" where
  "Root ident = takeWhile (\<lambda>c. c \<noteq> CHR ''.'') ident"

text \<open>
  \<open>IrmaIdentifierSet\<close>, with the three sets that the code at hand fills (the fields
  \<open>SchemeManagers\<close>, \<open>Issuers\<close> and \<open>CredentialTypes\<close> of the source).
\<close>

record IrmaIdentifierSet =
  setSchemeManagers :: "string list"
  setIssuers :: "string list"
  setCredentialTypes :: "string list"

definition emptySet :: IrmaIdentifierSet where
  "emptySet = \<lparr>setSchemeManagers = [], setIssuers = [], setCredentialTypes = []\<rparr>"

definition Empty :: "IrmaIdentifierSet \<Rightarrow> bool" where
  "Empty set' \<longleftrightarrow> setSchemeManagers set' = [] \<and> setIssuers set' = [] \<and> setCredentialTypes set' = []"

text \<open>
  The operations below change the configuration and the disk; they take both and
  return both, with the error.
\<close>

definition clear :: "Configuration \<Rightarrow> Configuration" where
  "clear conf = conf\<lparr>SchemeManagers := [], Issuers := [], CredentialTypes := [],
     AttributeTypes := [], DisabledSchemeManagers := [], publicKeys := [], reverseHashes := []\<rparr>"

definition DeleteSchemeManager ::
  "Configuration \<times> filesys \<Rightarrow> string \<Rightarrow> Configuration \<times> filesys \<times> error option" where
  "DeleteSchemeManager w ident =
     (let conf = fst w; disk = snd w;
          conf' = conf\<lparr>SchemeManagers := AList.delete ident (SchemeManagers conf),
            DisabledSchemeManagers := AList.delete ident (DisabledSchemeManagers conf),
            Issuers := filter (\<lambda>(iss, v). Root iss \<noteq> ident) (Issuers conf),
            publicKeys := filter (\<lambda>(iss, v). Root iss \<noteq> ident) (publicKeys conf),
            CredentialTypes := filter (\<lambda>(cred, v). Root cred \<noteq> ident) (CredentialTypes conf)\<rparr>
      in if \<not> readOnly conf
         then (case RemoveAll disk (Join (Path conf) ident) of (disk', err) \<Rightarrow> (conf', disk', err))
         else (conf', disk, None))"

text \<open>
  \<open>RemoveSchemeManager\<close>. There is no check of \<open>readOnly\<close> before the maps are changed, and
  the folder is removed when \<open>fromStorage || !conf.readOnly\<close>.
\<close>

definition RemoveSchemeManager ::
  "Configuration \<times> filesys \<Rightarrow> string \<Rightarrow> bool \<Rightarrow> Configuration \<times> filesys \<times> error option" where
  "RemoveSchemeManager w ident fromStorage =
     (let conf = fst w; disk = snd w;
          conf' = conf\<lparr>
            CredentialTypes := filter (\<lambda>(cred, v). Parent (Parent cred) \<noteq> ident) (CredentialTypes conf),
            Issuers := filter (\<lambda>(iss, v). Parent iss \<noteq> ident) (Issuers conf),
            publicKeys := filter (\<lambda>(iss, v). Parent iss \<noteq> ident) (publicKeys conf),
            SchemeManagers := AList.delete ident (SchemeManagers conf)\<rparr>
      in if fromStorage \<or> \<not> readOnly conf
         then (case RemoveAll disk (Path conf @ ''/'' @ ident) of (disk', err) \<Rightarrow> (conf', disk', err))
         else (conf', disk, None))"

definition hasPrefix :: "string \<Rightarrow> string \<Rightarrow> bool" where
  "hasPrefix s prefix \<longleftrightarrow> take (length prefix) s = prefix"

definition hasSuffix :: "string \<Rightarrow> string \<Rightarrow> bool" where
  "hasSuffix s suffix \<longleftrightarrow> length suffix \<le> length s \<and> drop (length s - length suffix) s = suffix"

text \<open>\<open>DownloadSchemeManager\<close>: the URL is normalised before the description is fetched.\<close>

definition normaliseURL :: "string \<Rightarrow> string" where
  "normaliseURL url =
     (let u1 = (if \<not> hasPrefix url ''http://'' \<and> \<not> hasPrefix url ''https://''
                then ''https://'' @ url else url);
          u2 = (if last u1 = CHR ''/'' then butlast u1 else u1);
          u3 = (if hasSuffix u2 ''/description.xml''
                then take (length u2 - length ''/description.xml'') u2 else u2)
      in u3)"

definition DownloadSchemeManager :: "library \<Rightarrow> string \<Rightarrow> error + SchemeManager" where
  "DownloadSchemeManager lib url =
     (let u = normaliseURL url in
      case GetBytes lib u ''description.xml'' of
        Inl err \<Rightarrow> Inl err
      | Inr b \<Rightarrow>
          (case xmlUnmarshal lib b of
             Inl err \<Rightarrow> Inl err
           | Inr d \<Rightarrow> Inr ((describe (NewSchemeManager []) d)\<lparr>ManagerURL := u\<rparr>)))"

definition DownloadSchemeManagerSignature ::
  "library \<Rightarrow> Configuration \<times> filesys \<Rightarrow> SchemeManager \<Rightarrow> Configuration \<times> filesys \<times> error option" where
  "DownloadSchemeManagerSignature lib w manager =
     (let conf = fst w; disk = snd w in
      if readOnly conf then (conf, disk, Some ErrReadOnlyDownload)
      else (let path = Path conf @ ''/'' @ ID manager;
                indexPath = Join path ''index'';
                sig = Join path ''index.sig'' in
        case GetFile lib disk (ManagerURL manager) ''index'' indexPath of
          (disk1, Some err) \<Rightarrow> (conf, disk1, Some err)
        | (disk1, None) \<Rightarrow>
       (case GetFile lib disk1 (ManagerURL manager) ''index.sig'' sig of
          (disk2, Some err) \<Rightarrow> (conf, disk2, Some err)
        | (disk2, None) \<Rightarrow>
            (case VerifySignature lib disk2 conf (ID manager) of
               Returned err \<Rightarrow> (conf, disk2, err)
             | Panicked p \<Rightarrow> (conf, disk2, Some (ErrSignatureFailedToVerify p))))))"

text \<open>
  The loop of \<open>UpdateSchemeManager\<close> over the new index. The slice
  \<^verbatim>\<open>filename[len(manager.ID)+1:]\<close> is out of range for a name that is too short.
\<close>

fun updateFiles ::
  "library \<Rightarrow> Configuration \<Rightarrow> SchemeManager \<Rightarrow> string \<Rightarrow> filesys \<Rightarrow> IrmaIdentifierSet option \<Rightarrow>
     (string \<times> ConfigurationFileHash) list \<Rightarrow>
     (filesys \<times> IrmaIdentifierSet option \<times> error option) go_result" where
  "updateFiles lib conf manager server disk downloaded [] = Returned (disk, downloaded, None)"
| "updateFiles lib conf manager server disk downloaded ((filename, newHash) # rest) =
     (let path = Join (Path conf) filename in
      case PathExists disk path of
        (have, Some err) \<Rightarrow> Returned (disk, downloaded, Some err)
      | (have, None) \<Rightarrow>
          if map_of (index manager) filename = Some newHash \<and> have
          then updateFiles lib conf manager server disk downloaded rest
          else (case MkdirAll disk (DirOf path) of
                  (disk1, Some err) \<Rightarrow> Returned (disk1, downloaded, Some err)
                | (disk1, None) \<Rightarrow>
                    if length filename < length (ID manager) + 1 then Panicked SliceBoundsOutOfRange
                    else (let stripped = drop (length (ID manager) + 1) filename in
                      case GetSignedFile lib disk1 server stripped path newHash of
                        (disk2, Some err) \<Rightarrow> Returned (disk2, downloaded, Some err)
                      | (disk2, None) \<Rightarrow>
                          (case downloaded of
                             None \<Rightarrow> updateFiles lib conf manager server disk2 None rest
                           | Some dl \<Rightarrow>
                               (let dl1 = (case issuerOfPath lib filename of
                                             None \<Rightarrow> dl
                                           | Some issid \<Rightarrow>
                                               dl\<lparr>setIssuers := List.insert issid (setIssuers dl)\<rparr>);
                                    dl2 = (case credentialTypeOfPath lib filename of
                                             None \<Rightarrow> dl1
                                           | Some credid \<Rightarrow>
                                               dl1\<lparr>setCredentialTypes :=
                                                 List.insert credid (setCredentialTypes dl1)\<rparr>)
                                in updateFiles lib conf manager server disk2 (Some dl2) rest)))))"

text \<open>
  \<open>UpdateSchemeManager\<close>. The second parameter of the source may be \<open>nil\<close>; it is returned
  as the loop leaves it. The new index is stored in the manager that the map points to.
\<close>

definition UpdateSchemeManager ::
  "library \<Rightarrow> Configuration \<times> filesys \<Rightarrow> string \<Rightarrow> IrmaIdentifierSet option \<Rightarrow>
     (Configuration \<times> filesys \<times> IrmaIdentifierSet option \<times> error option) go_result" where
  "UpdateSchemeManager lib w ident downloaded =
     (let conf = fst w; disk = snd w in
      if readOnly conf then Returned (conf, disk, downloaded, Some ErrReadOnlyUpdate)
      else (case map_of (SchemeManagers conf) ident of
        None \<Rightarrow> Returned (conf, disk, downloaded, Some (ErrUnknownSchemeManager ident))
      | Some manager \<Rightarrow>
     (let server = ManagerURL manager @ ''/'' in
      case GetBytes lib server ''timestamp'' of
        Inl err \<Rightarrow> Returned (conf, disk, downloaded, Some err)
      | Inr timestampBts \<Rightarrow>
     (case parseTimestamp lib timestampBts of
        Inl err \<Rightarrow> Returned (conf, disk, downloaded, Some err)
      | Inr timestamp \<Rightarrow>
          if \<not> Timestamp manager < timestamp then Returned (conf, disk, downloaded, None)
          else
     (case DownloadSchemeManagerSignature lib (conf, disk) manager of
        (conf1, disk1, Some err) \<Rightarrow> Returned (conf1, disk1, downloaded, Some err)
      | (conf1, disk1, None) \<Rightarrow>
     (case parseIndex lib disk1 conf1 (ID manager) of
        (newIndex, ws, Some err) \<Rightarrow> Returned (warn conf1 ws, disk1, downloaded, Some err)
      | (newIndex, ws, None) \<Rightarrow>
     (let conf2 = warn conf1 ws in
      case updateFiles lib conf2 manager server disk1 downloaded newIndex of
        Panicked p \<Rightarrow> Panicked p
      | Returned (disk2, dl, Some err) \<Rightarrow> Returned (conf2, disk2, dl, Some err)
      | Returned (disk2, dl, None) \<Rightarrow>
          Returned
            (conf2\<lparr>SchemeManagers :=
               AList.update ident (manager\<lparr>index := newIndex\<rparr>) (SchemeManagers conf2)\<rparr>,
             disk2, dl, None))))))))"

text \<open>
  \<open>InstallSchemeManager\<close>. \<open>publickey\<close> is \<open>None\<close> for \<open>nil\<close>. After the manager is put into
  the map, \<open>UpdateSchemeManager\<close> changes it through the map, and the folder is parsed
  with the manager as the map then holds it.
\<close>

definition InstallSchemeManager ::
  "library \<Rightarrow> Configuration \<times> filesys \<Rightarrow> SchemeManager \<Rightarrow> bytes option \<Rightarrow>
     (Configuration \<times> filesys \<times> error option) go_result" where
  "InstallSchemeManager lib w manager publickey =
     (let conf = fst w; disk = snd w in
      if readOnly conf then Returned (conf, disk, Some ErrReadOnlyInstall)
      else (let name = ID manager in
        case EnsureDirectoryExists disk (Join (Path conf) name) of
          (disk1, Some err) \<Rightarrow> Returned (conf, disk1, Some err)
        | (disk1, None) \<Rightarrow>
       (let path = Path conf @ ''/'' @ name in
        case GetFile lib disk1 (ManagerURL manager) ''description.xml'' (path @ ''/description.xml'') of
          (disk2, Some err) \<Rightarrow> Returned (conf, disk2, Some err)
        | (disk2, None) \<Rightarrow>
       (case (case publickey of
                Some pk \<Rightarrow> SaveFile lib disk2 (path @ ''/pk.pem'') pk
              | None \<Rightarrow> GetFile lib disk2 (ManagerURL manager) ''pk.pem'' (path @ ''/pk.pem'')) of
          (disk3, Some err) \<Rightarrow> Returned (conf, disk3, Some err)
        | (disk3, None) \<Rightarrow>
       (case DownloadSchemeManagerSignature lib (conf, disk3) manager of
          (conf4, disk4, Some err) \<Rightarrow> Returned (conf4, disk4, Some err)
        | (conf4, disk4, None) \<Rightarrow>
       (let conf5 = conf4\<lparr>SchemeManagers := AList.update (ID manager) manager (SchemeManagers conf4)\<rparr> in
        case UpdateSchemeManager lib (conf5, disk4) (ID manager) None of
          Panicked p \<Rightarrow> Panicked p
        | Returned (conf6, disk6, dl, Some err) \<Rightarrow> Returned (conf6, disk6, Some err)
        | Returned (conf6, disk6, dl, None) \<Rightarrow>
            (case map_of (SchemeManagers conf6) (ID manager) of
               None \<Rightarrow> Panicked NilDereference
             | Some manager6 \<Rightarrow>
                 (case ParseSchemeManagerFolder lib disk6 conf6 (Join (Path conf6) name) manager6 of
                    Panicked p \<Rightarrow> Panicked p
                  | Returned (conf7, err) \<Rightarrow> Returned (conf7, disk6, err)))))))))"

definition ReinstallSchemeManager ::
  "library \<Rightarrow> Configuration \<times> filesys \<Rightarrow> SchemeManager \<Rightarrow>
     (Configuration \<times> filesys \<times> error option) go_result" where
  "ReinstallSchemeManager lib w manager =
     (let conf = fst w; disk = snd w in
      if readOnly conf then Returned (conf, disk, Some ErrReadOnlyInstall)
      else (case DownloadSchemeManager lib (ManagerURL manager) of
              Inl err \<Rightarrow> Returned (conf, disk, Some err)
            | Inr manager' \<Rightarrow>
                (case DeleteSchemeManager (conf, disk) (ID manager') of
                   (conf1, disk1, Some err) \<Rightarrow> Returned (conf1, disk1, Some err)
                 | (conf1, disk1, None) \<Rightarrow> InstallSchemeManager lib (conf1, disk1) manager' None)))"

(*PROOFS*)

section \<open>Properties of the version negotiation\<close>

lemma firstMinor_None:
  "firstMinor a b c d M ms = None \<longleftrightarrow> (\<forall>m \<in> set ms. \<not> inRange (a, b) (c, d) (M, m))"
  by (induction ms) (auto simp: inRange_def versionLe_def Let_def)

lemma firstMinor_Some:
  "firstMinor a b c d M ms = Some m \<Longrightarrow>
     \<exists>pre post. ms = pre @ m # post \<and> inRange (a, b) (c, d) (M, m) \<and>
       (\<forall>x \<in> set pre. \<not> inRange (a, b) (c, d) (M, x))"
proof (induction ms)
  case Nil
  then show ?case by simp
next
  case (Cons x xs)
  show ?case
  proof (cases "inRange (a, b) (c, d) (M, x)")
    case True
    with Cons.prems have "m = x"
      by (auto simp: inRange_def versionLe_def Let_def split: if_splits)
    with True have "x # xs = [] @ m # xs \<and> inRange (a, b) (c, d) (M, m) \<and>
       (\<forall>y \<in> set []. \<not> inRange (a, b) (c, d) (M, y))" by simp
    then show ?thesis by blast
  next
    case False
    with Cons.prems have "firstMinor a b c d M xs = Some m"
      by (auto simp: inRange_def versionLe_def Let_def split: if_splits)
    from Cons.IH[OF this] obtain pre post where
      "xs = pre @ m # post" "inRange (a, b) (c, d) (M, m)"
      "\<forall>y \<in> set pre. \<not> inRange (a, b) (c, d) (M, y)" by blast
    with False have "x # xs = (x # pre) @ m # post \<and> inRange (a, b) (c, d) (M, m) \<and>
       (\<forall>y \<in> set (x # pre). \<not> inRange (a, b) (c, d) (M, y))" by simp
    then show ?thesis by blast
  qed
qed


lemma firstVersion_None:
  "firstVersion tbl a b c d ks = None \<longleftrightarrow>
     (\<forall>K \<in> set ks. \<forall>m \<in> set (minorsOf tbl K). \<not> inRange (a, b) (c, d) (K, m))"
proof (induction ks)
  case Nil
  then show ?case by simp
next
  case (Cons K ks)
  show ?case
  proof (cases "firstMinor a b c d K (minorsOf tbl K)")
    case None
    then show ?thesis using Cons.IH firstMinor_None[of a b c d K "minorsOf tbl K"] by simp
  next
    case (Some x)
    then have "\<not> (\<forall>m \<in> set (minorsOf tbl K). \<not> inRange (a, b) (c, d) (K, m))"
      using firstMinor_None[of a b c d K "minorsOf tbl K"] by simp
    with Some show ?thesis by auto
  qed
qed

lemma firstVersion_Some:
  "firstVersion tbl a b c d ks = Some (M, m) \<Longrightarrow>
     \<exists>pre post. ks = pre @ M # post \<and>
       firstMinor a b c d M (minorsOf tbl M) = Some m \<and>
       (\<forall>K \<in> set pre. \<forall>x \<in> set (minorsOf tbl K). \<not> inRange (a, b) (c, d) (K, x))"
proof (induction ks)
  case Nil
  then show ?case by simp
next
  case (Cons K ks)
  show ?case
  proof (cases "firstMinor a b c d K (minorsOf tbl K)")
    case None
    with Cons.prems have "firstVersion tbl a b c d ks = Some (M, m)"
      by simp
    from Cons.IH[OF this] obtain pre post where
      "ks = pre @ M # post" "firstMinor a b c d M (minorsOf tbl M) = Some m"
      "\<forall>K \<in> set pre. \<forall>x \<in> set (minorsOf tbl K). \<not> inRange (a, b) (c, d) (K, x)" by blast
    with None have "K # ks = (K # pre) @ M # post \<and>
       firstMinor a b c d M (minorsOf tbl M) = Some m \<and>
       (\<forall>K \<in> set (K # pre). \<forall>x \<in> set (minorsOf tbl K). \<not> inRange (a, b) (c, d) (K, x))"
      by (simp add: firstMinor_None)
    then show ?thesis by blast
  next
    case (Some x)
    with Cons.prems have "K = M" "x = m" by simp_all
    with Some have "K # ks = [] @ M # ks \<and>
       firstMinor a b c d M (minorsOf tbl M) = Some m \<and>
       (\<forall>K \<in> set []. \<forall>x \<in> set (minorsOf tbl K). \<not> inRange (a, b) (c, d) (K, x))"
      by simp
    then show ?thesis by blast
  qed
qed

lemma supportedPairs_iff:
  "distinct (map fst tbl) \<Longrightarrow>
     (M, m) \<in> set (supportedPairs tbl) \<longleftrightarrow> M \<in> set (map fst tbl) \<and> m \<in> set (minorsOf tbl M)"
proof -
  assume d: "distinct (map fst tbl)"
  have "(M, m) \<in> set (supportedPairs tbl) \<longleftrightarrow> (\<exists>ms. (M, ms) \<in> set tbl \<and> m \<in> set ms)"
    by (auto simp: supportedPairs_def)
  also have "\<dots> \<longleftrightarrow> (\<exists>ms. map_of tbl M = Some ms \<and> m \<in> set ms)"
    using d by (auto dest: map_of_SomeD)
  also have "\<dots> \<longleftrightarrow> M \<in> set (map fst tbl) \<and> m \<in> set (minorsOf tbl M)"
    by (cases "map_of tbl M") (auto simp: minorsOf_def map_of_eq_None_iff dest: map_of_SomeD intro: rev_image_eqI)
  finally show ?thesis .
qed

lemma minorsOf_descending:
  "minorsDescending tbl \<Longrightarrow> sorted (rev (minorsOf tbl M))"
  by (auto simp: minorsDescending_def minorsOf_def list_all_iff split: option.splits
      dest!: map_of_SomeD)

lemma sortedKeysDesc_props:
  "set (sortedKeysDesc tbl) = set (map fst tbl)" "sorted (rev (sortedKeysDesc tbl))"
  by (simp_all add: sortedKeysDesc_def)

lemma firstVersion_highest:
  assumes dist: "distinct (map fst tbl)" and desc: "minorsDescending tbl"
    and res: "firstVersion tbl a b c d (sortedKeysDesc tbl) = Some v"
  shows "v \<in> set (supportedPairs tbl) \<and> inRange (a, b) (c, d) v \<and>
    (\<forall>w \<in> set (supportedPairs tbl). inRange (a, b) (c, d) w \<longrightarrow> versionLe w v)"
proof -
  obtain M m where v: "v = (M, m)" by (cases v)
  from firstVersion_Some[OF res[unfolded v]] obtain pre post where
    ks: "sortedKeysDesc tbl = pre @ M # post" and
    fm: "firstMinor a b c d M (minorsOf tbl M) = Some m" and
    none: "\<forall>K \<in> set pre. \<forall>x \<in> set (minorsOf tbl K). \<not> inRange (a, b) (c, d) (K, x)"
    by blast
  from firstMinor_Some[OF fm] obtain mpre mpost where
    ms: "minorsOf tbl M = mpre @ m # mpost" and inr: "inRange (a, b) (c, d) (M, m)" and
    mnone: "\<forall>x \<in> set mpre. \<not> inRange (a, b) (c, d) (M, x)" by blast
  have Mkey: "M \<in> set (map fst tbl)"
    using sortedKeysDesc_props(1)[of tbl] ks by auto
  have mem: "(M, m) \<in> set (supportedPairs tbl)"
    using supportedPairs_iff[OF dist] Mkey ms by simp
  have post_le: "\<forall>K \<in> set post. K \<le> M"
    using sortedKeysDesc_props(2)[of tbl] unfolding ks
    by (auto simp: sorted_append)
  have mpost_le: "\<forall>x \<in> set mpost. x \<le> m"
    using minorsOf_descending[OF desc, of M] unfolding ms
    by (auto simp: sorted_append)
  have best: "versionLe (K, x) (M, m)"
    if w: "(K, x) \<in> set (supportedPairs tbl)" and wr: "inRange (a, b) (c, d) (K, x)" for K x
  proof -
    from w supportedPairs_iff[OF dist] have K: "K \<in> set (map fst tbl)"
      and x: "x \<in> set (minorsOf tbl K)" by auto
    from K sortedKeysDesc_props(1)[of tbl] ks have "K \<in> set pre \<or> K = M \<or> K \<in> set post"
      by auto
    then show ?thesis
    proof (elim disjE)
      assume "K \<in> set pre"
      with none x wr show ?thesis by blast
    next
      assume KM: "K = M"
      with x ms have "x \<in> set mpre \<or> x = m \<or> x \<in> set mpost" by auto
      with mnone wr KM mpost_le show ?thesis by (auto simp: versionLe_def)
    next
      assume "K \<in> set post"
      with post_le have "K \<le> M" by blast
      show ?thesis
      proof (cases "K = M")
        case True
        with x ms have "x \<in> set mpre \<or> x = m \<or> x \<in> set mpost" by auto
        with mnone wr True mpost_le show ?thesis by (auto simp: versionLe_def)
      next
        case False
        with \<open>K \<le> M\<close> show ?thesis by (simp add: versionLe_def)
      qed
    qed
  qed
  from mem inr best show ?thesis unfolding v by auto
qed

lemma firstVersion_none_supported:
  assumes dist: "distinct (map fst tbl)"
    and res: "firstVersion tbl a b c d (sortedKeysDesc tbl) = None"
  shows "\<forall>w \<in> set (supportedPairs tbl). \<not> inRange (a, b) (c, d) w"
proof
  fix w assume w: "w \<in> set (supportedPairs tbl)"
  obtain K x where kx: "w = (K, x)" by (cases w)
  from w kx supportedPairs_iff[OF dist] have "K \<in> set (map fst tbl)" "x \<in> set (minorsOf tbl K)"
    by auto
  with res firstVersion_None[of tbl a b c d "sortedKeysDesc tbl"] sortedKeysDesc_props(1)[of tbl]
  show "\<not> inRange (a, b) (c, d) w" unfolding kx by auto
qed

lemma of_char_lt_256: "(of_char c :: nat) < 256"
  by (metis of_char_mod_256 mod_less_divisor zero_less_numeral)

lemma Atoi_string_of_byte:
  "Atoi (string_of_byte c) =
     (if isDigit c then Inr (digitVal c) else Inl (ErrSyntax (string_of_byte c)))"
proof (cases "(of_char c :: nat) < 128")
  case True
  then have s: "string_of_byte c = [c]" by (simp add: string_of_byte_def)
  show ?thesis
  proof (cases "isDigit c")
    case d: True
    then have "c \<noteq> CHR ''-''" "c \<noteq> CHR ''+''" by (auto simp: isDigit_def)
    moreover from d have "0 \<le> digitVal c" "digitVal c \<le> 9"
      by (auto simp: isDigit_def digitVal_def)
    ultimately show ?thesis using d by (simp add: s Atoi_def)
  next
    case False
    then show ?thesis by (simp add: s Atoi_def)
  qed
next
  case False
  define n where "n = (of_char c :: nat)"
  have n: "128 \<le> n" "n < 256" using False of_char_lt_256[of c] by (simp_all add: n_def)
  then have "n div 64 < 4" by simp
  then have hi: "(of_char (char_of (192 + n div 64)) :: nat) = 192 + n div 64"
    by simp
  have nd: "\<not> isDigit c" using n by (simp add: isDigit_def n_def)
  have s: "string_of_byte c = [char_of (192 + n div 64), char_of (128 + n mod 64)]"
    using False by (simp add: string_of_byte_def n_def Let_def)
  have h1: "\<not> isDigit (char_of (192 + n div 64))"
    unfolding isDigit_def hi by simp
  have h2: "char_of (192 + n div 64) \<noteq> CHR ''-''" "char_of (192 + n div 64) \<noteq> CHR ''+''"
  proof -
    have "(of_char (CHR ''-'') :: nat) = 45" "(of_char (CHR ''+'') :: nat) = 43" by simp_all
    with hi show "char_of (192 + n div 64) \<noteq> CHR ''-''" "char_of (192 + n div 64) \<noteq> CHR ''+''"
      by (auto dest!: arg_cong[where f="of_char :: char \<Rightarrow> nat"] simp del: of_char_of)
  qed
  show ?thesis using nd h1 h2 by (simp add: s Atoi_def)
qed

lemma atoi_at_eq:
  "atoi_at s i =
     (if i < length s
      then (if isDigit (s ! i) then Returned (Inr (digitVal (s ! i)))
            else Returned (Inl (ErrSyntax (string_of_byte (s ! i)))))
      else Panicked IndexOutOfRange)"
  by (simp add: atoi_at_def byte_at_def Atoi_string_of_byte)

lemma itoa_digit: "0 \<le> a \<Longrightarrow> a \<le> 9 \<Longrightarrow> itoa a = [digitChar (nat a)]"
  by (simp add: itoa_def)

lemma digitChar_props:
  "n \<le> 9 \<Longrightarrow> isDigit (digitChar n)" "n \<le> 9 \<Longrightarrow> digitVal (digitChar n) = int n"
  by (simp_all add: isDigit_def digitChar_def digitVal_def)

lemma atoi_at_versionString:
  assumes "0 \<le> a" "a \<le> 9" "0 \<le> b" "b \<le> 9"
  shows "atoi_at (versionString (a, b)) 0 = Returned (Inr a)"
    and "atoi_at (versionString (a, b)) 2 = Returned (Inr b)"
  using assms by (simp_all add: atoi_at_eq versionString_def itoa_digit digitChar_props)

lemma calcVersionWith_parsed:
  assumes "atoi_at (ProtocolVersion qr) 0 = Returned (Inr a)"
    and "atoi_at (ProtocolVersion qr) 2 = Returned (Inr b)"
    and "atoi_at (ProtocolMaxVersion qr) 0 = Returned (Inr c)"
    and "atoi_at (ProtocolMaxVersion qr) 2 = Returned (Inr d)"
  shows "calcVersionWith tbl qr =
     (case firstVersion tbl a b c d (sortedKeysDesc tbl) of
        Some v \<Rightarrow> Returned (Inr (versionString v))
      | None \<Rightarrow> Returned (Inl (NoSupportedVersion (ProtocolVersion qr) (ProtocolMaxVersion qr))))"
  using assms by (simp add: calcVersionWith_def versionString_def split: option.splits)

lemma calcVersionWith_highest:
  assumes dist: "distinct (map fst tbl)" and desc: "minorsDescending tbl"
    and p: "atoi_at (ProtocolVersion qr) 0 = Returned (Inr a)"
      "atoi_at (ProtocolVersion qr) 2 = Returned (Inr b)"
      "atoi_at (ProtocolMaxVersion qr) 0 = Returned (Inr c)"
      "atoi_at (ProtocolMaxVersion qr) 2 = Returned (Inr d)"
  shows "(\<exists>v. isHighestSupported tbl (a, b) (c, d) v \<and>
            calcVersionWith tbl qr = Returned (Inr (versionString v))) \<or>
         (noneSupported tbl (a, b) (c, d) \<and>
            calcVersionWith tbl qr =
              Returned (Inl (NoSupportedVersion (ProtocolVersion qr) (ProtocolMaxVersion qr))))"
proof (cases "firstVersion tbl a b c d (sortedKeysDesc tbl)")
  case None
  from firstVersion_none_supported[OF dist None]
  have "noneSupported tbl (a, b) (c, d)" by (simp add: noneSupported_def list_all_iff)
  moreover have "calcVersionWith tbl qr =
      Returned (Inl (NoSupportedVersion (ProtocolVersion qr) (ProtocolMaxVersion qr)))"
    using calcVersionWith_parsed[OF p, of tbl] None by simp
  ultimately show ?thesis by blast
next
  case (Some v)
  from firstVersion_highest[OF dist desc Some]
  have "isHighestSupported tbl (a, b) (c, d) v"
    by (auto simp: isHighestSupported_def list_all_iff)
  moreover have "calcVersionWith tbl qr = Returned (Inr (versionString v))"
    using calcVersionWith_parsed[OF p, of tbl] Some by simp
  ultimately show ?thesis by blast
qed

lemma supportedVersions_wellformed:
  "distinct (map fst supportedVersions)" "minorsDescending supportedVersions"
  by (simp_all add: supportedVersions_def minorsDescending_def)

text \<open>
  Claim C4, as amended. When the QR carries its minimum and maximum as one decimal
  digit, a dot and one decimal digit, \<open>calcVersion\<close> returns the highest pair of the
  supported table that lies in the inclusive range, printed as \<open>major.minor\<close>; when no
  supported pair lies in the range it returns an error, which \<open>NewSession\<close> reports as
  the failure \<open>ProtocolVersionNotSupported\<close>. (For a version with more digits only the
  bytes at positions 0 and 2 count: see claim C10.)
\<close>

theorem calcVersion_highest_supported:
  assumes "0 \<le> a" "a \<le> 9" "0 \<le> b" "b \<le> 9" "0 \<le> c" "c \<le> 9" "0 \<le> d" "d \<le> 9"
    and "ProtocolVersion qr = versionString (a, b)"
    and "ProtocolMaxVersion qr = versionString (c, d)"
  shows "(\<exists>v. isHighestSupported supportedVersions (a, b) (c, d) v \<and>
            calcVersion qr = Returned (Inr (versionString v))) \<or>
         (noneSupported supportedVersions (a, b) (c, d) \<and>
            (\<exists>e. calcVersion qr = Returned (Inl e) \<and>
               NewSession env qr = fail (Type qr)
                 \<lparr>ErrorCode = ErrorProtocolVersionNotSupported, Err = Some e, Info = InfoNone\<rparr>))"
proof -
  have p: "atoi_at (ProtocolVersion qr) 0 = Returned (Inr a)"
      "atoi_at (ProtocolVersion qr) 2 = Returned (Inr b)"
      "atoi_at (ProtocolMaxVersion qr) 0 = Returned (Inr c)"
      "atoi_at (ProtocolMaxVersion qr) 2 = Returned (Inr d)"
    using assms by (simp_all add: atoi_at_versionString)
  from calcVersionWith_highest[OF supportedVersions_wellformed p]
  show ?thesis
  proof (elim disjE exE conjE)
    fix v assume "isHighestSupported supportedVersions (a, b) (c, d) v"
      "calcVersionWith supportedVersions qr = Returned (Inr (versionString v))"
    then have "isHighestSupported supportedVersions (a, b) (c, d) v \<and>
        calcVersion qr = Returned (Inr (versionString v))"
      by (simp add: calcVersion_def)
    then show ?thesis by blast
  next
    assume n: "noneSupported supportedVersions (a, b) (c, d)"
      and e: "calcVersionWith supportedVersions qr =
        Returned (Inl (NoSupportedVersion (ProtocolVersion qr) (ProtocolMaxVersion qr)))"
    from e have "NewSession env qr = fail (Type qr)
        \<lparr>ErrorCode = ErrorProtocolVersionNotSupported,
         Err = Some (NoSupportedVersion (ProtocolVersion qr) (ProtocolMaxVersion qr)),
         Info = InfoNone\<rparr>"
      by (simp add: NewSession_def calcVersion_def)
    with n e show ?thesis unfolding calcVersion_def by blast
  qed
qed

text \<open>
  The scenario of the specification: minimum 2.1 and maximum 2.2 give version 2.2, and
  the range 2.3 to 2.4 fails.
\<close>

theorem calcVersion_highest_supported_witness:
  "calcVersion (qrVersions ''2.1'' ''2.2'') = Returned (Inr ''2.2'') \<and>
   NewSession acceptingEnv (qrVersions ''2.3'' ''2.4'') =
     [TransportDelete,
      Failure ActionDisclosing
        \<lparr>ErrorCode = ErrorProtocolVersionNotSupported,
         Err = Some (NoSupportedVersion ''2.3'' ''2.4''), Info = InfoNone\<rparr>]"
proof -
  have v: "versionString (2, 1) = ''2.1''" "versionString (2, 2) = ''2.2''"
    "versionString (2, 3) = ''2.3''" "versionString (2, 4) = ''2.4''"
    by code_simp+
  have hi: "isHighestSupported supportedVersions (2, 1) (2, 2) v \<longleftrightarrow> v = (2, 2)" for v
    by (auto simp: isHighestSupported_def supportedVersions_def supportedPairs_def
        inRange_def versionLe_def)
  have n1: "\<not> noneSupported supportedVersions (2, 1) (2, 2)"
    by (simp add: noneSupported_def supportedVersions_def supportedPairs_def
        inRange_def versionLe_def)
  have n2: "\<not> isHighestSupported supportedVersions (2, 3) (2, 4) v" for v
    by (auto simp: isHighestSupported_def supportedVersions_def supportedPairs_def
        inRange_def versionLe_def)
  have "calcVersion (qrVersions ''2.1'' ''2.2'') = Returned (Inr ''2.2'')"
    using calcVersion_highest_supported
      [of 2 1 2 2 "qrVersions ''2.1'' ''2.2''" acceptingEnv]
    by (simp add: qrVersions_def v hi n1)
  moreover have "NewSession acceptingEnv (qrVersions ''2.3'' ''2.4'') =
     [TransportDelete,
      Failure ActionDisclosing
        \<lparr>ErrorCode = ErrorProtocolVersionNotSupported,
         Err = Some (NoSupportedVersion ''2.3'' ''2.4''), Info = InfoNone\<rparr>]"
  proof -
    from calcVersion_highest_supported
      [of 2 3 2 4 "qrVersions ''2.3'' ''2.4''" acceptingEnv]
    obtain e where e: "calcVersion (qrVersions ''2.3'' ''2.4'') = Returned (Inl e)"
      and f: "NewSession acceptingEnv (qrVersions ''2.3'' ''2.4'') =
        fail ActionDisclosing
          \<lparr>ErrorCode = ErrorProtocolVersionNotSupported, Err = Some e, Info = InfoNone\<rparr>"
      by (auto simp: qrVersions_def v n2)
    have "calcVersion (qrVersions ''2.3'' ''2.4'') =
        Returned (Inl (NoSupportedVersion ''2.3'' ''2.4''))"
      by code_simp
    with e have "e = NoSupportedVersion ''2.3'' ''2.4''" by simp
    with f show ?thesis by (simp add: fail_def)
  qed
  ultimately show ?thesis by blast
qed

text \<open>
  The claim as stated fails for versions of more digits: for the range 2.10 to 2.12,
  which holds no supported version, the code returns 2.1.
\<close>

theorem calcVersion_multi_digit_counterexample:
  "calcVersion (qrVersions ''2.10'' ''2.12'') = Returned (Inr ''2.1'') \<and>
   \<not> inRange (2, 10) (2, 12) (2, 1) \<and>
   noneSupported supportedVersions (2, 10) (2, 12)"
  by code_simp

lemma calcVersion_panics_iff:
  "(\<exists>p. calcVersion qr = Panicked p) \<longleftrightarrow> readsOutOfRange qr"
  "calcVersion qr = Panicked p \<Longrightarrow> p = IndexOutOfRange"
  by (auto simp: calcVersion_def calcVersionWith_def atoi_at_eq readsOutOfRange_def Let_def
      split: option.splits if_splits)

lemma NewSession_panic_iff:
  "NewSession env qr = [Panic IndexOutOfRange] \<longleftrightarrow> (\<exists>p. calcVersion qr = Panicked p)"
proof (cases "calcVersion qr")
  case (Panicked p)
  with calcVersion_panics_iff(2)[of qr p] show ?thesis by (simp add: NewSession_def)
next
  case (Returned r)
  then show ?thesis
    by (cases r; cases "Type qr") (simp_all add: NewSession_def fail_def start_def)
qed

lemma calcVersion_bytes_only:
  assumes "byte_at (ProtocolVersion qr) 0 = byte_at (ProtocolVersion qr') 0"
    and "byte_at (ProtocolVersion qr) 2 = byte_at (ProtocolVersion qr') 2"
    and "byte_at (ProtocolMaxVersion qr) 0 = byte_at (ProtocolMaxVersion qr') 0"
    and "byte_at (ProtocolMaxVersion qr) 2 = byte_at (ProtocolMaxVersion qr') 2"
  shows "calcVersion qr = Returned (Inr v) \<longleftrightarrow> calcVersion qr' = Returned (Inr v)"
    and "calcVersion qr = Panicked p \<longleftrightarrow> calcVersion qr' = Panicked p"
  using assms
  by (auto simp: calcVersion_def calcVersionWith_def atoi_at_def
      split: go_result.splits sum.splits option.splits)

lemma short_no_panic_fails:
  assumes short: "length (ProtocolVersion qr) < 3 \<or> length (ProtocolMaxVersion qr) < 3"
    and np: "\<not> readsOutOfRange qr"
  shows "\<exists>c. calcVersion qr = Returned (Inl (ErrSyntax (string_of_byte c)))"
  using assms
  by (auto simp: calcVersion_def calcVersionWith_def atoi_at_eq readsOutOfRange_def Let_def
      split: if_splits)

text \<open>
  Claim C10, as amended. \<open>NewSession\<close> reads only the bytes at positions 0 and 2 of the
  two version strings, in the order minimum 0, minimum 2, maximum 0, maximum 2, and stops
  at the first byte that is not a decimal digit. It panics with an index out of range
  exactly when a position it reads lies beyond the end of its string, which needs every
  byte read before to be a digit; when a string is shorter than 3 bytes and a byte read
  before the missing one is not a digit, it reports the failure
  \<open>ProtocolVersionNotSupported\<close> instead. Two QR codes that agree on these four bytes
  negotiate the same version, so 2.10 is read as 2.1.
\<close>

theorem NewSession_version_reads:
  "(NewSession env qr = [Panic IndexOutOfRange] \<longleftrightarrow> readsOutOfRange qr) \<and>
   ((length (ProtocolVersion qr) < 3 \<or> length (ProtocolMaxVersion qr) < 3) \<and>
      \<not> readsOutOfRange qr \<longrightarrow>
      (\<exists>c. NewSession env qr = fail (Type qr)
         \<lparr>ErrorCode = ErrorProtocolVersionNotSupported,
          Err = Some (ErrSyntax (string_of_byte c)), Info = InfoNone\<rparr>)) \<and>
   (byte_at (ProtocolVersion qr) 0 = byte_at (ProtocolVersion qr') 0 \<and>
    byte_at (ProtocolVersion qr) 2 = byte_at (ProtocolVersion qr') 2 \<and>
    byte_at (ProtocolMaxVersion qr) 0 = byte_at (ProtocolMaxVersion qr') 0 \<and>
    byte_at (ProtocolMaxVersion qr) 2 = byte_at (ProtocolMaxVersion qr') 2 \<longrightarrow>
      (calcVersion qr = Returned (Inr v) \<longleftrightarrow> calcVersion qr' = Returned (Inr v)))"
proof (intro conjI impI)
  show "NewSession env qr = [Panic IndexOutOfRange] \<longleftrightarrow> readsOutOfRange qr"
    using NewSession_panic_iff[of env qr] calcVersion_panics_iff(1)[of qr] by simp
next
  assume "(length (ProtocolVersion qr) < 3 \<or> length (ProtocolMaxVersion qr) < 3) \<and>
      \<not> readsOutOfRange qr"
  then obtain c where "calcVersion qr = Returned (Inl (ErrSyntax (string_of_byte c)))"
    using short_no_panic_fails[of qr] by blast
  then have "NewSession env qr = fail (Type qr)
         \<lparr>ErrorCode = ErrorProtocolVersionNotSupported,
          Err = Some (ErrSyntax (string_of_byte c)), Info = InfoNone\<rparr>"
    by (simp add: NewSession_def)
  then show "\<exists>c. NewSession env qr = fail (Type qr)
         \<lparr>ErrorCode = ErrorProtocolVersionNotSupported,
          Err = Some (ErrSyntax (string_of_byte c)), Info = InfoNone\<rparr>" by blast
next
  assume "byte_at (ProtocolVersion qr) 0 = byte_at (ProtocolVersion qr') 0 \<and>
    byte_at (ProtocolVersion qr) 2 = byte_at (ProtocolVersion qr') 2 \<and>
    byte_at (ProtocolMaxVersion qr) 0 = byte_at (ProtocolMaxVersion qr') 0 \<and>
    byte_at (ProtocolMaxVersion qr) 2 = byte_at (ProtocolMaxVersion qr') 2"
  then show "calcVersion qr = Returned (Inr v) \<longleftrightarrow> calcVersion qr' = Returned (Inr v)"
    using calcVersion_bytes_only(1)[of qr qr' v] by blast
qed

text \<open>
  A minimum of one digit and a missing maximum panic; a minimum that starts with a letter
  is reported as a failure; 2.10 negotiates like 2.1.
\<close>

theorem NewSession_version_reads_witness:
  "NewSession acceptingEnv (qrVersions ''2'' ''2.2'') = [Panic IndexOutOfRange] \<and>
   NewSession acceptingEnv (qrVersions ''2.1'' '''') = [Panic IndexOutOfRange] \<and>
   NewSession acceptingEnv (qrVersions ''x'' '''') =
     [TransportDelete,
      Failure ActionDisclosing
        \<lparr>ErrorCode = ErrorProtocolVersionNotSupported,
         Err = Some (ErrSyntax ''x''), Info = InfoNone\<rparr>] \<and>
   calcVersion (qrVersions ''2.10'' ''2.10'') = Returned (Inr ''2.1'')"
proof -
  have r1: "readsOutOfRange (qrVersions ''2'' ''2.2'')"
    and r2: "readsOutOfRange (qrVersions ''2.1'' '''')"
    and r3: "\<not> readsOutOfRange (qrVersions ''x'' '''')"
    by code_simp+
  have a: "NewSession acceptingEnv (qrVersions ''2'' ''2.2'') = [Panic IndexOutOfRange]"
    using NewSession_version_reads[of acceptingEnv "qrVersions ''2'' ''2.2''"] r1 by blast
  have b: "NewSession acceptingEnv (qrVersions ''2.1'' '''') = [Panic IndexOutOfRange]"
    using NewSession_version_reads[of acceptingEnv "qrVersions ''2.1'' ''''"] r2 by blast
  have "\<exists>c. NewSession acceptingEnv (qrVersions ''x'' '''') = fail (Type (qrVersions ''x'' ''''))
         \<lparr>ErrorCode = ErrorProtocolVersionNotSupported,
          Err = Some (ErrSyntax (string_of_byte c)), Info = InfoNone\<rparr>"
    using NewSession_version_reads[of acceptingEnv "qrVersions ''x'' ''''"] r3
    by (simp add: qrVersions_def)
  moreover have "NewSession acceptingEnv (qrVersions ''x'' '''') =
     [TransportDelete,
      Failure ActionDisclosing
        \<lparr>ErrorCode = ErrorProtocolVersionNotSupported,
         Err = Some (ErrSyntax ''x''), Info = InfoNone\<rparr>]"
    by code_simp
  ultimately have c: "NewSession acceptingEnv (qrVersions ''x'' '''') =
     [TransportDelete,
      Failure ActionDisclosing
        \<lparr>ErrorCode = ErrorProtocolVersionNotSupported,
         Err = Some (ErrSyntax ''x''), Info = InfoNone\<rparr>]" by blast
  have e: "calcVersion (qrVersions ''2.1'' ''2.1'') = Returned (Inr ''2.1'')" by code_simp
  have bytes: "byte_at ''2.10'' 0 = byte_at ''2.1'' 0" "byte_at ''2.10'' 2 = byte_at ''2.1'' 2"
    by (simp_all add: byte_at_def)
  have d: "calcVersion (qrVersions ''2.10'' ''2.10'') = Returned (Inr ''2.1'')"
    using NewSession_version_reads
      [of acceptingEnv "qrVersions ''2.10'' ''2.10''" "qrVersions ''2.1'' ''2.1''" "''2.1''"]
      e bytes by (simp add: qrVersions_def)
  from a b c d show ?thesis by blast
qed

text \<open>
  The claim as stated fails: both strings are shorter than 3 bytes, and the session
  reports a failure instead of panicking, because the first byte read is not a digit.
\<close>

theorem NewSession_short_version_counterexample:
  "length (ProtocolVersion (qrVersions ''x'' '''')) < 3 \<and>
   length (ProtocolMaxVersion (qrVersions ''x'' '''')) < 3 \<and>
   NewSession acceptingEnv (qrVersions ''x'' '''') =
     [TransportDelete,
      Failure ActionDisclosing
        \<lparr>ErrorCode = ErrorProtocolVersionNotSupported,
         Err = Some (ErrSyntax ''x''), Info = InfoNone\<rparr>]"
  by code_simp

section \<open>Properties of the index parser\<close>

lemma split_on_nonempty: "split_on c s \<noteq> []"
  by (induction s) (auto split: list.splits)

lemma length_split_on: "length (split_on c s) = count_list s c + 1"
  by (induction s) (auto split: list.splits simp: split_on_nonempty)

lemma split_on_hd: "split_on c s ! 0 = takeWhile (\<lambda>x. x \<noteq> c) s"
  by (induction s) (auto split: list.splits simp: split_on_nonempty)

lemma split_on_no_sep: "c \<notin> set s \<Longrightarrow> split_on c s = [s]"
  by (induction s) auto

lemma split_on_second:
  "count_list s c = 1 \<Longrightarrow> split_on c s ! 1 = drop 1 (dropWhile (\<lambda>x. x \<noteq> c) s)"
proof (induction s)
  case Nil
  then show ?case by simp
next
  case (Cons x xs)
  show ?case
  proof (cases "x = c")
    case True
    with Cons.prems have "count_list xs c = 0" by simp
    then have "c \<notin> set xs" by (simp add: count_list_0_iff)
    then have "split_on c xs = [xs]" by (rule split_on_no_sep)
    with True show ?thesis by simp
  next
    case False
    with Cons.prems have "count_list xs c = 1" by simp
    from Cons.IH[OF this] have ih: "split_on c xs ! 1 = drop 1 (dropWhile (\<lambda>x. x \<noteq> c) xs)" .
    obtain p ps where ps: "split_on c xs = p # ps"
      using split_on_nonempty[of c xs] by (cases "split_on c xs") auto
    from False ps ih show ?thesis by simp
  qed
qed

lemma fromHexChar_Some_iff: "(\<exists>a. fromHexChar c = Some a) \<longleftrightarrow> isHexDigit c"
  by (simp add: fromHexChar_def isHexDigit_def Let_def less_eq_char_def)

lemma fromHexChar_None_iff: "fromHexChar c = None \<longleftrightarrow> \<not> isHexDigit c"
  using fromHexChar_Some_iff[of c] by (cases "fromHexChar c") auto

lemma DecodeString_ok_iff: "(\<exists>bs. DecodeString h = Inr bs) \<longleftrightarrow> validHex h"
proof (induction h rule: DecodeString.induct)
  case 1
  then show ?case by (simp add: validHex_def)
next
  case (2 p)
  then show ?case by (simp add: validHex_def split: option.splits)
next
  case (3 p q rest)
  show ?case
  proof (cases "fromHexChar p")
    case None
    then have "\<not> isHexDigit p" by (simp add: fromHexChar_None_iff)
    with None show ?thesis by (simp add: validHex_def)
  next
    case (Some a)
    note a = this
    show ?thesis
    proof (cases "fromHexChar q")
      case None
      then have "\<not> isHexDigit q" by (simp add: fromHexChar_None_iff)
      with None a show ?thesis by (simp add: validHex_def)
    next
      case (Some b)
      have hp: "isHexDigit p" using a fromHexChar_Some_iff[of p] by simp
      have hq: "isHexDigit q" using Some fromHexChar_Some_iff[of q] by simp
      have "(\<exists>bs. DecodeString (p # q # rest) = Inr bs) \<longleftrightarrow> (\<exists>bs. DecodeString rest = Inr bs)"
        using a Some by (cases "DecodeString rest") simp_all
      also have "\<dots> \<longleftrightarrow> validHex rest" using 3[OF a Some] .
      also have "\<dots> \<longleftrightarrow> validHex (p # q # rest)" using hp hq by (simp add: validHex_def)
      finally show ?thesis .
    qed
  qed
qed

lemma line_ok_iff:
  assumes "line \<noteq> []"
  shows "(length (split_on CHR '' '' line) = 2 \<and>
          (\<exists>bs. DecodeString (split_on CHR '' '' line ! 0) = Inr bs)) \<longleftrightarrow> wellFormedLine line"
  using assms
  by (simp add: wellFormedLine_def twoParts_def hashField_def length_split_on split_on_hd
      DecodeString_ok_iff)

lemma FromString_lines_ok_iff:
  "snd (FromString_lines i j ls) = None \<longleftrightarrow> list_all wellFormedLine ls"
proof (induction ls arbitrary: i j)
  case Nil
  then show ?case by simp
next
  case (Cons l ls)
  show ?case
  proof (cases "l = []")
    case True
    then show ?thesis using Cons.IH by (simp add: wellFormedLine_def)
  next
    case False
    note ne = this
    show ?thesis
    proof (cases "length (split_on CHR '' '' l) = 2")
      case False
      with ne line_ok_iff[of l] have "\<not> wellFormedLine l" by simp
      with ne False show ?thesis by (simp add: Let_def)
    next
      case True
      show ?thesis
      proof (cases "DecodeString (split_on CHR '' '' l ! 0)")
        case (Inl e)
        with ne True line_ok_iff[of l] have "\<not> wellFormedLine l" by simp
        with ne True Inl show ?thesis by (simp add: Let_def)
      next
        case (Inr h)
        with ne True line_ok_iff[of l] have "wellFormedLine l" by simp
        with ne True Inr show ?thesis using Cons.IH by (simp add: Let_def)
      qed
    qed
  qed
qed






section \<open>Properties of the index serialization\<close>

lemma hextable_all:
  "map (\<lambda>a. hextable ! a) [0..<16] =
   map (\<lambda>a. if a < 10 then char_of (48 + a) else char_of (87 + a)) [0..<16]"
  by code_simp

lemma hextable_nth:
  assumes "a < 16"
  shows "hextable ! a = (if a < 10 then char_of (48 + a) else char_of (87 + a))"
proof -
  have "map (\<lambda>a. hextable ! a) [0..<16] ! a =
    map (\<lambda>a. if a < 10 then char_of (48 + a) else char_of (87 + a)) [0..<16] ! a"
    by (simp only: hextable_all)
  with assms show ?thesis by (simp del: upt_Suc)
qed

lemma fromHexChar_lower:
  assumes "fromHexChar c = Some a"
  shows "a < 16" and "hextable ! a = toLower c"
proof -
  define n where "n = (of_char c :: nat)"
  have c: "char_of n = c" by (simp add: n_def)
  from assms have cases: "(48 \<le> n \<and> n \<le> 57 \<and> a = n - 48) \<or> (97 \<le> n \<and> n \<le> 102 \<and> a = n - 87) \<or>
      (65 \<le> n \<and> n \<le> 70 \<and> a = n - 55)"
    by (auto simp: fromHexChar_def Let_def n_def split: if_splits)
  then show "a < 16" by auto
  have low: "toLower c = (if 65 \<le> n \<and> n \<le> 90 then char_of (n + 32) else c)"
    by (simp add: toLower_def less_eq_char_def n_def)
  from cases show "hextable ! a = toLower c"
  proof (elim disjE conjE)
    assume h: "48 \<le> n" "n \<le> 57" "a = n - 48"
    then have "a < 10" "a < 16" "48 + a = n" "toLower c = c" by (auto simp: low)
    then show ?thesis by (simp add: hextable_nth c)
  next
    assume h: "97 \<le> n" "n \<le> 102" "a = n - 87"
    then have "\<not> a < 10" "a < 16" "87 + a = n" "toLower c = c" by (auto simp: low)
    then show ?thesis by (simp add: hextable_nth c)
  next
    assume h: "65 \<le> n" "n \<le> 70" "a = n - 55"
    then have "\<not> a < 10" "a < 16" "87 + a = n + 32" "toLower c = char_of (n + 32)"
      by (auto simp: low)
    then show ?thesis by (simp add: hextable_nth)
  qed
qed

lemma Encode_Decode:
  "DecodeString h = Inr bs \<Longrightarrow> EncodeToString bs = map toLower h"
proof (induction h arbitrary: bs rule: DecodeString.induct)
  case 1
  then show ?case by (simp add: EncodeToString_def)
next
  case (2 p)
  then show ?case by (simp split: option.splits)
next
  case (3 p q rest)
  from "3.prems" obtain a b bs' where a: "fromHexChar p = Some a" and b: "fromHexChar q = Some b"
    and r: "DecodeString rest = Inr bs'" and bs: "bs = char_of (a * 16 + b) # bs'"
    by (auto split: option.splits sum.splits)
  from fromHexChar_lower[OF a] fromHexChar_lower[OF b]
  have ab: "a < 16" "b < 16" "hextable ! a = toLower p" "hextable ! b = toLower q" by simp_all
  then have "a * 16 + b < 256" by simp
  then have oc: "(of_char (char_of (a * 16 + b)) :: nat) = a * 16 + b" by simp
  have d: "(a * 16 + b) div 16 = a" "(a * 16 + b) mod 16 = b" using ab by simp_all
  have "EncodeToString bs = [hextable ! a, hextable ! b] @ EncodeToString bs'"
    unfolding bs EncodeToString_def using ab(1,2) by (simp add: oc d del: of_char_of)
  also have "EncodeToString bs' = map toLower rest" using "3.IH"[OF a b r] .
  finally show ?case using ab by simp
qed

lemma FromString_lines_map_of:
  "list_all wellFormedLine ls \<Longrightarrow>
     map_of (fst (FromString_lines i j ls)) =
       map_of (rev (map (\<lambda>l. (pathField l, decodeHex (hashField l))) (filter (\<lambda>l. l \<noteq> []) ls)) @ i)"
proof (induction ls arbitrary: i j)
  case Nil
  then show ?case by simp
next
  case (Cons l ls)
  then have wl: "wellFormedLine l" and rest: "list_all wellFormedLine ls" by simp_all
  show ?case
  proof (cases "l = []")
    case True
    then show ?thesis using Cons.IH[OF rest, of i "j + 1"] by simp
  next
    case False
    from wl False have tp: "twoParts l" and vh: "validHex (hashField l)"
      by (simp_all add: wellFormedLine_def)
    from tp have len: "length (split_on CHR '' '' l) = 2"
      by (simp add: twoParts_def length_split_on)
    have p0: "split_on CHR '' '' l ! 0 = hashField l" by (simp add: split_on_hd hashField_def)
    have p1: "split_on CHR '' '' l ! 1 = pathField l"
      using split_on_second[of l "CHR '' ''"] tp unfolding twoParts_def pathField_def by simp
    from vh obtain bs where bs: "DecodeString (hashField l) = Inr bs"
      using DecodeString_ok_iff[of "hashField l"] by blast
    then have dh: "decodeHex (hashField l) = bs" by (simp add: decodeHex_def)
    have "fst (FromString_lines i j (l # ls)) =
        fst (FromString_lines (AList.update (pathField l) bs i) (j + 1) ls)"
      using False len p0 p1 bs by (simp add: Let_def del: One_nat_def)
    then show ?thesis
      using Cons.IH[OF rest, of "AList.update (pathField l) bs i" "j + 1"] False dh
      by (simp add: update_conv' map_add_def fun_eq_iff del: One_nat_def split: option.splits)
  qed
qed

lemma FromString_lines_distinct:
  "distinct (map fst i) \<Longrightarrow> distinct (map fst (fst (FromString_lines i j ls)))"
proof (induction ls arbitrary: i j)
  case Nil
  then show ?case by simp
next
  case (Cons l ls)
  show ?case
    using Cons.IH[OF Cons.prems] Cons.IH[OF distinct_update[OF Cons.prems]] Cons.prems
    by (simp add: Let_def split: sum.splits del: One_nat_def)
qed

lemma map_of_keepLast: "map_of (keepLast es) = map_of (rev es)"
proof (induction es)
  case Nil
  then show ?case by simp
next
  case (Cons e es)
  obtain k v where e: "e = (k, v)" by (cases e)
  show ?case
  proof (cases "k \<in> fst ` set es")
    case True
    then have "k \<in> dom (map_of (rev es))" by (simp add: dom_map_of_conv_image_fst)
    then show ?thesis using True Cons.IH e
      by (auto simp: fun_eq_iff map_add_def split: option.splits)
  next
    case False
    then have "map_of (rev es) k = None"
      by (simp add: map_of_eq_None_iff)
    then show ?thesis using False Cons.IH e
      by (auto simp: fun_eq_iff map_add_def split: option.splits)
  qed
qed

lemma keepLast_keys: "fst ` set (keepLast es) = fst ` set es"
  by (induction es) auto

lemma keepLast_subset: "set (keepLast es) \<subseteq> set es"
  by (induction es) auto

lemma keepLast_distinct: "distinct (map fst (keepLast es))"
  by (induction es) (auto simp: keepLast_keys)

lemma keepLast_id: "distinct (map fst es) \<Longrightarrow> keepLast es = es"
  by (induction es) auto

lemma lookup_list:
  "distinct (map fst xs) \<Longrightarrow> set ys \<subseteq> set xs \<Longrightarrow>
     ys = map (\<lambda>p. (p, the (map_of xs p))) (map fst ys)"
  by (induction ys) (auto simp: map_of_eq_Some_iff[THEN iffD2])

lemma sort_key_fst:
  assumes "distinct (map fst xs)"
  shows "sort_key fst xs = map (\<lambda>p. (p, the (map_of xs p))) (sort (map fst xs))"
proof -
  have "distinct (map fst (sort_key fst xs))"
    using assms by (simp add: distinct_map)
  then have "map fst (sort_key fst xs) = sort (map fst xs)"
    using assms by (intro sorted_distinct_set_unique) simp_all
  moreover have "sort_key fst xs = map (\<lambda>p. (p, the (map_of xs p))) (map fst (sort_key fst xs))"
    by (rule lookup_list[OF assms]) simp
  ultimately show ?thesis by simp
qed

lemma String_FromString_keepLast:
  assumes ok: "snd (FromString [] s) = None"
  shows "String (fst (FromString [] s)) = canonical_sort (keepLast (indexEntries s))"
proof -
  define ls where "ls = filter (\<lambda>l. l \<noteq> []) (indexLines s)"
  define es where "es = indexEntries s"
  define kl where "kl = keepLast es"
  define idx where "idx = fst (FromString [] s)"
  have wf: "list_all wellFormedLine (indexLines s)"
    using ok FromString_lines_ok_iff[of "[]" 0 "indexLines s"]
    by (simp add: FromString_def indexLines_def)
  have es: "es = map (\<lambda>l. (pathField l, hashField l)) ls"
    by (simp add: es_def indexEntries_def ls_def)
  have valid: "validHex h" if "(p, h) \<in> set es" for p h
    using that wf by (auto simp: es ls_def list_all_iff wellFormedLine_def)
  have des: "map (\<lambda>l. (pathField l, decodeHex (hashField l))) ls =
      map (\<lambda>(p, h). (p, decodeHex h)) es"
    by (simp add: es)
  have m: "map_of idx = map_option decodeHex \<circ> map_of kl"
  proof -
    have "map_of idx = map_of (rev (map (\<lambda>(p, h). (p, decodeHex h)) es))"
      using FromString_lines_map_of[OF wf, of "[]" 0] des
      by (simp add: idx_def FromString_def indexLines_def ls_def)
    also have "\<dots> = map_of (map (\<lambda>(p, h). (p, decodeHex h)) (rev es))"
      by (simp add: rev_map)
    also have "\<dots> = map_option decodeHex \<circ> map_of (rev es)"
      by (simp add: map_of_map)
    finally show ?thesis by (simp add: kl_def map_of_keepLast)
  qed
  have d1: "distinct (map fst idx)"
    using FromString_lines_distinct[of "[]" 0 "indexLines s"]
    by (simp add: idx_def FromString_def indexLines_def)
  have d2: "distinct (map fst kl)" by (simp add: kl_def keepLast_distinct)
  have "dom (map_of idx) = dom (map_of kl)" by (auto simp: m)
  then have keys: "set (map fst idx) = set (map fst kl)"
    by (simp add: dom_map_of_conv_image_fst)
  have sk: "sort (map fst idx) = sort (map fst kl)"
    using d1 d2 keys by (intro sorted_distinct_set_unique) simp_all
  have line: "EncodeToString (hashOf idx p) @ '' '' @ p @ [CHR 0x0A] =
      canonicalLine (p, the (map_of kl p))" if "p \<in> set (map fst kl)" for p
  proof -
    from that d2 obtain h where h: "map_of kl p = Some h"
      by (auto simp: map_of_eq_Some_iff)
    then have "(p, h) \<in> set kl" by (rule map_of_SomeD)
    then have "(p, h) \<in> set es" using keepLast_subset[of es] by (auto simp: kl_def)
    then have "validHex h" by (rule valid)
    then obtain bs where bs: "DecodeString h = Inr bs"
      using DecodeString_ok_iff[of h] by blast
    then have "EncodeToString (decodeHex h) = map toLower h"
      using Encode_Decode[OF bs] by (simp add: decodeHex_def)
    moreover have "hashOf idx p = decodeHex h" using h by (simp add: hashOf_def m)
    ultimately show ?thesis using h by (simp add: canonicalLine_def)
  qed
  have "String idx =
      concat (map (\<lambda>p. EncodeToString (hashOf idx p) @ '' '' @ p @ [CHR 0x0A]) (sort (map fst kl)))"
    by (simp add: String_def sk)
  also have "\<dots> = concat (map (\<lambda>p. canonicalLine (p, the (map_of kl p))) (sort (map fst kl)))"
    using line by (intro arg_cong[where f=concat] map_cong) simp_all
  also have "\<dots> = concat (map canonicalLine (sort_key fst kl))"
    by (simp add: sort_key_fst[OF d2] comp_def)
  finally show ?thesis by (simp add: idx_def canonical_sort_def kl_def es_def)
qed

text \<open>
  Claim C8, as amended. For every index text that \<open>FromString\<close> accepts into an empty
  index, \<open>String\<close> of the parsed index is the canonical form of the text: its entries,
  of which only the last one is kept where a path is listed more than once, sorted in
  lexicographic path order, each line the hash in lower case hex, one space, the path
  and a newline. When no path is listed twice these are all the entries of the text.
\<close>

theorem String_FromString_canonical:
  assumes "snd (FromString [] s) = None"
  shows "String (fst (FromString [] s)) = canonical_sort (keepLast (indexEntries s)) \<and>
    (distinct (map fst (indexEntries s)) \<longrightarrow>
       String (fst (FromString [] s)) = canonical_sort (indexEntries s))"
  using String_FromString_keepLast[OF assms] by (simp add: keepLast_id)

text \<open>
  A text with an upper case hash, an empty line and its paths out of order comes back
  in lower case and sorted.
\<close>

theorem String_FromString_canonical_witness:
  "snd (FromString [] (''AB0f b/c'' @ [CHR 0x0A, CHR 0x0A] @ ''01 a'' @ [CHR 0x0A])) = None \<and>
   String (fst (FromString [] (''AB0f b/c'' @ [CHR 0x0A, CHR 0x0A] @ ''01 a'' @ [CHR 0x0A]))) =
     ''01 a'' @ [CHR 0x0A] @ ''ab0f b/c'' @ [CHR 0x0A]"
proof -
  let ?s = "''AB0f b/c'' @ [CHR 0x0A, CHR 0x0A] @ ''01 a'' @ [CHR 0x0A]"
  have ok: "snd (FromString [] ?s) = None" by code_simp
  have d: "distinct (map fst (indexEntries ?s))" by code_simp
  have c: "canonical_sort (indexEntries ?s) = ''01 a'' @ [CHR 0x0A] @ ''ab0f b/c'' @ [CHR 0x0A]"
    by code_simp
  from String_FromString_canonical[OF ok] d
  have "String (fst (FromString [] ?s)) = canonical_sort (indexEntries ?s)" by blast
  with c have "String (fst (FromString [] ?s)) = ''01 a'' @ [CHR 0x0A] @ ''ab0f b/c'' @ [CHR 0x0A]"
    by (simp only:)
  with ok show ?thesis by blast
qed

text \<open>
  The claim as stated fails for a text that lists a path twice: the parser accepts it,
  the parsed index keeps the last hash only, and its serialization has one line where
  the text has two entries.
\<close>

theorem String_duplicate_path_counterexample:
  "snd (FromString [] (''aa p'' @ [CHR 0x0A] @ ''bb p'' @ [CHR 0x0A])) = None \<and>
   String (fst (FromString [] (''aa p'' @ [CHR 0x0A] @ ''bb p'' @ [CHR 0x0A]))) =
     ''bb p'' @ [CHR 0x0A] \<and>
   canonical_sort (indexEntries (''aa p'' @ [CHR 0x0A] @ ''bb p'' @ [CHR 0x0A])) =
     ''aa p'' @ [CHR 0x0A] @ ''bb p'' @ [CHR 0x0A]"
  by code_simp

section \<open>Properties of the session\<close>

lemma endsInOutcome_Cons: "\<not> isOutcome ev \<Longrightarrow> endsInOutcome run \<Longrightarrow> endsInOutcome (ev # run)"
  by (auto simp: endsInOutcome_def)

lemma endsInOutcome_fail: "endsInOutcome (fail a e)"
  by (simp add: endsInOutcome_def fail_def)

lemma endsInOutcome_logged: "endsInOutcome [AddLogEntry, Success a]"
  by (simp add: endsInOutcome_def)

lemma endsInOutcome_sendResponse: "endsInOutcome (sendResponse env a)"
  by (simp add: sendResponse_def endsInOutcome_def fail_def split: sum.splits option.splits)

lemma endsInOutcome_keyshare:
  "keyshareOutcome env \<noteq> None \<Longrightarrow> endsInOutcome (keyshareCallback env a)"
  by (cases "keyshareOutcome env")
    (simp_all add: keyshareCallback_def endsInOutcome_fail endsInOutcome_sendResponse
      endsInOutcome_def[of "[TransportDelete, Cancelled a]"] split: keyshare_outcome.splits)

lemma endsInOutcome_do:
  assumes "distributed env \<longrightarrow> buildersResult env = None \<and> keyshareOutcome env \<noteq> None"
  shows "endsInOutcome (do env a proceed)"
proof (cases proceed)
  case False
  then show ?thesis by (simp add: do_def endsInOutcome_def)
next
  case True
  show ?thesis
  proof (cases "distributed env")
    case False
    with True show ?thesis
      by (simp add: do_def endsInOutcome_fail endsInOutcome_sendResponse
          endsInOutcome_Cons split: option.splits)
  next
    case d: True
    with assms have "buildersResult env = None" "keyshareOutcome env \<noteq> None" by simp_all
    with True d show ?thesis
      by (simp add: do_def endsInOutcome_keyshare endsInOutcome_Cons)
  qed
qed

lemma endsInOutcome_start:
  assumes "isSessionAction a" "permission env \<noteq> None"
    and "distributed env \<longrightarrow> buildersResult env = None \<and> keyshareOutcome env \<noteq> None"
  shows "endsInOutcome (start env a)"
proof -
  from assms(2) obtain p where p: "permission env = Some p" by auto
  have cb: "endsInOutcome (callback env a)"
    using endsInOutcome_do[OF assms(3), of a p] by (simp add: callback_def p)
  have un: "endsInOutcome [UnsatisfiableRequest a]" by (simp add: endsInOutcome_def)
  have ask: "endsInOutcome (case a of
               ActionDisclosing \<Rightarrow> AskVerificationPermission # callback env a
             | ActionSigning \<Rightarrow> AskSignaturePermission # callback env a
             | ActionIssuing \<Rightarrow> AskIssuancePermission # callback env a
             | _ \<Rightarrow> [Panic InvalidSessionType])"
    using assms(1) cb by (cases a) (simp_all add: isSessionAction_def endsInOutcome_Cons)
  show ?thesis
    using ask un
    by (simp add: start_def endsInOutcome_fail endsInOutcome_Cons split: option.splits)
qed

lemma endsInOutcome_once: "endsInOutcome run \<Longrightarrow> length (filter isOutcome run) = 1"
proof -
  assume e: "endsInOutcome run"
  then have "run = butlast run @ [last run]" by (simp add: endsInOutcome_def)
  then have "filter isOutcome run = filter isOutcome (butlast run) @ filter isOutcome [last run]"
    by (metis filter_append)
  moreover have "filter isOutcome (butlast run) = []"
    using e by (simp add: endsInOutcome_def list_all_iff filter_empty_conv)
  ultimately show ?thesis using e by (simp add: endsInOutcome_def)
qed

lemma endsInOutcome_NewSession:
  assumes "\<not> readsOutOfRange qr" "permission env \<noteq> None"
    and "distributed env \<longrightarrow> buildersResult env = None \<and> keyshareOutcome env \<noteq> None"
  shows "endsInOutcome (NewSession env qr)"
proof (cases "calcVersion qr")
  case (Panicked p)
  with assms(1) calcVersion_panics_iff(1)[of qr] show ?thesis by blast
next
  case (Returned r)
  show ?thesis
  proof (cases r)
    case (Inl e)
    with Returned show ?thesis by (simp add: NewSession_def endsInOutcome_fail)
  next
    case (Inr v)
    show ?thesis
    proof (cases "isSessionAction (Type qr)")
      case True
      then have "NewSession env qr = start env (Type qr)"
        using Returned Inr by (auto simp: NewSession_def isSessionAction_def)
      with endsInOutcome_start[OF True assms(2,3)] show ?thesis by simp
    next
      case False
      then have "NewSession env qr = fail (Type qr)
          \<lparr>ErrorCode = ErrorUnknownAction, Err = None, Info = InfoAction (Type qr)\<rparr>"
        using Returned Inr by (cases "Type qr") (simp_all add: NewSession_def isSessionAction_def)
      then show ?thesis by (simp add: endsInOutcome_fail)
    qed
  qed
qed

text \<open>
  Claim C5, as amended. A session whose version strings can be read, whose handler
  answers the permission request and whose keyshare sub-session, when one is started
  with proof builders that were built, reports its outcome, makes exactly one of the
  callbacks \<open>Success\<close>, \<open>Cancelled\<close>, \<open>Failure\<close> and \<open>UnsatisfiableRequest\<close>, makes it once,
  and does nothing after it. (The run of a keyshare session whose proof builders fail is
  not covered: see \<open>keyshare_started_after_failure\<close> below.)
\<close>

theorem session_one_outcome:
  assumes "\<not> readsOutOfRange qr" and "permission env \<noteq> None"
    and "distributed env \<longrightarrow> buildersResult env = None \<and> keyshareOutcome env \<noteq> None"
  shows "endsInOutcome (NewSession env qr) \<and> length (filter isOutcome (NewSession env qr)) = 1"
  using endsInOutcome_NewSession[OF assms] endsInOutcome_once by blast

text \<open>The disclosure that the server accepts ends with \<open>Success\<close>, its only outcome.\<close>

theorem session_one_outcome_witness:
  "last (NewSession acceptingEnv (qrVersions ''2.1'' ''2.2'')) = Success ActionDisclosing \<and>
   endsInOutcome (NewSession acceptingEnv (qrVersions ''2.1'' ''2.2'')) \<and>
   length (filter isOutcome (NewSession acceptingEnv (qrVersions ''2.1'' ''2.2''))) = 1"
proof -
  have r: "\<not> readsOutOfRange (qrVersions ''2.1'' ''2.2'')" by code_simp
  have p: "permission acceptingEnv \<noteq> None" by (simp add: acceptingEnv_def)
  have d: "distributed acceptingEnv \<longrightarrow>
      buildersResult acceptingEnv = None \<and> keyshareOutcome acceptingEnv \<noteq> None"
    by (simp add: acceptingEnv_def)
  have l: "last (NewSession acceptingEnv (qrVersions ''2.1'' ''2.2'')) = Success ActionDisclosing"
    by code_simp
  from session_one_outcome[OF r p d] l show ?thesis by blast
qed

text \<open>
  The claim as stated fails: when the credentials asked for are missing, the session
  ends with \<open>UnsatisfiableRequest\<close>, and none of \<open>Success\<close>, \<open>Cancelled\<close> and \<open>Failure\<close> is
  called.
\<close>

theorem session_unsatisfiable_counterexample:
  "NewSession unsatisfiableEnv (qrVersions ''2.1'' ''2.2'') =
     [StatusUpdate ActionDisclosing StatusCommunicating, TransportGet ''jwt'',
      UnsatisfiableRequest ActionDisclosing] \<and>
   length (filter isTerminalCallback (NewSession unsatisfiableEnv (qrVersions ''2.1'' ''2.2''))) = 0"
  by code_simp

text \<open>
  In the keyshare branch of \<open>session.do\<close> the call of \<open>session.fail\<close> is not followed by a
  \<open>return\<close>, as it is in the other branch: after the \<open>Failure\<close> callback the keyshare
  sub-session is started, and the session goes on to \<open>Success\<close>.
\<close>

lemma keyshare_started_after_failure:
  "NewSession failingBuildersEnv (qrVersions ''2.1'' ''2.2'') =
     [StatusUpdate ActionDisclosing StatusCommunicating, TransportGet ''jwt'',
      StatusUpdate ActionDisclosing StatusConnected, AskVerificationPermission,
      StatusUpdate ActionDisclosing StatusCommunicating, TransportDelete,
      Failure ActionDisclosing
        \<lparr>ErrorCode = ErrorCrypto, Err = Some (ErrLibrary ''proof builders''), Info = InfoNone\<rparr>,
      StartKeyshareSession, TransportPost ''proofs'', AddLogEntry, Success ActionDisclosing]"
  by code_simp

section \<open>Properties of the authenticated file store\<close>

lemma ReadFile_not_mismatch: "ReadFile disk p = Inl e \<Longrightarrow> e = ErrIO p \<or> e = ErrNotExist p"
  by (auto simp: ReadFile_def split: option.splits node.splits)

lemma ReadAuthenticatedFile_success_iff:
  "ReadAuthenticatedFile lib disk conf manager P = (Some bts, True, None) \<longleftrightarrow>
     (\<exists>h. map_of (index manager) (ToSlash P) = Some h \<and>
          ReadFile disk (Join (Path conf) P) = Inr bts \<and> sha256 lib bts = h)"
  by (auto simp: ReadAuthenticatedFile_def split: option.splits sum.splits)

lemma ReadAuthenticatedFile_bytes:
  "fst (ReadAuthenticatedFile lib disk conf manager P) = Some bts \<Longrightarrow>
     ReadAuthenticatedFile lib disk conf manager P = (Some bts, True, None)"
  by (auto simp: ReadAuthenticatedFile_def split: option.splits sum.splits if_splits)

lemma ReadAuthenticatedFile_failure:
  assumes "fst (ReadAuthenticatedFile lib disk conf manager P) = None"
  shows "failureOf (ReadAuthenticatedFile lib disk conf manager P) =
     Some (case map_of (index manager) (ToSlash P) of
             None \<Rightarrow> NotIndexed
           | Some h \<Rightarrow> (case ReadFile disk (Join (Path conf) P) of
                          Inl e \<Rightarrow> IOError
                        | Inr b \<Rightarrow> HashMismatch))"
proof (cases "map_of (index manager) (ToSlash P)")
  case None
  then show ?thesis by (simp add: ReadAuthenticatedFile_def)
next
  case (Some h)
  show ?thesis
  proof (cases "ReadFile disk (Join (Path conf) P)")
    case (Inl e)
    with ReadFile_not_mismatch[OF Inl] Some show ?thesis
      by (auto simp: ReadAuthenticatedFile_def)
  next
    case (Inr b)
    with assms Some show ?thesis
      by (auto simp: ReadAuthenticatedFile_def split: if_splits)
  qed
qed

text \<open>
  Claim C2. For every scheme-relative path, \<open>ReadAuthenticatedFile\<close> returns bytes exactly
  when the path is a key of the index of the scheme, the file can be read, and the
  SHA-256 of its bytes is the hash that the index records; the bytes returned are those
  of the file. In every other case it returns no bytes and reports one of three
  failures: \<open>NotIndexed\<close> (the result \<open>found = false\<close>) when the path is not a key of the
  index, \<open>IOError\<close> when the file cannot be read, \<open>HashMismatch\<close> when the hash differs.
\<close>

theorem ReadAuthenticatedFile_authentic:
  "(ReadAuthenticatedFile lib disk conf manager P = (Some bts, True, None) \<longleftrightarrow>
      (\<exists>h. map_of (index manager) (ToSlash P) = Some h \<and>
           ReadFile disk (Join (Path conf) P) = Inr bts \<and> sha256 lib bts = h)) \<and>
   (fst (ReadAuthenticatedFile lib disk conf manager P) = Some bts \<longrightarrow>
      ReadAuthenticatedFile lib disk conf manager P = (Some bts, True, None)) \<and>
   (fst (ReadAuthenticatedFile lib disk conf manager P) = None \<longrightarrow>
      failureOf (ReadAuthenticatedFile lib disk conf manager P) =
        Some (case map_of (index manager) (ToSlash P) of
                None \<Rightarrow> NotIndexed
              | Some h \<Rightarrow> (case ReadFile disk (Join (Path conf) P) of
                             Inl e \<Rightarrow> IOError
                           | Inr b \<Rightarrow> HashMismatch)))"
  using ReadAuthenticatedFile_success_iff[of lib disk conf manager P bts]
    ReadAuthenticatedFile_bytes[of lib disk conf manager P bts]
    ReadAuthenticatedFile_failure[of lib disk conf manager P]
  by blast

text \<open>
  On the demo folder: the description is returned, the key file is not indexed, the
  description of the issuer is indexed but not on disk, and the description with one
  byte changed does not match its hash.
\<close>

theorem ReadAuthenticatedFile_authentic_witness:
  "ReadAuthenticatedFile testLibrary demoDisk demoConf demoManager ''irma-demo/description.xml'' =
     (Some ''irma-demo'', True, None) \<and>
   failureOf (ReadAuthenticatedFile testLibrary demoDisk demoConf demoManager ''irma-demo/pk.pem'') =
     Some NotIndexed \<and>
   failureOf (ReadAuthenticatedFile testLibrary demoDisk demoConf demoManager
     ''irma-demo/RU/description.xml'') = Some IOError \<and>
   failureOf (ReadAuthenticatedFile testLibrary tamperedDisk demoConf demoManager
     ''irma-demo/description.xml'') = Some HashMismatch"
proof -
  have i: "map_of (index demoManager) (ToSlash ''irma-demo/description.xml'') =
      Some (checksum ''irma-demo'')"
    "map_of (index demoManager) (ToSlash ''irma-demo/RU/description.xml'') = Some (checksum ''RU'')"
    "map_of (index demoManager) (ToSlash ''irma-demo/pk.pem'') = None"
    by code_simp+
  have r: "ReadFile demoDisk (Join (Path demoConf) ''irma-demo/description.xml'') = Inr ''irma-demo''"
    "ReadFile demoDisk (Join (Path demoConf) ''irma-demo/RU/description.xml'') =
       Inl (ErrNotExist ''/conf/irma-demo/RU/description.xml'')"
    "ReadFile tamperedDisk (Join (Path demoConf) ''irma-demo/description.xml'') = Inr ''Irma-demo''"
    by code_simp+
  have h: "sha256 testLibrary ''irma-demo'' = checksum ''irma-demo''"
    by (simp add: testLibrary_def)
  have f: "fst (ReadAuthenticatedFile testLibrary demoDisk demoConf demoManager ''irma-demo/pk.pem'') = None"
    "fst (ReadAuthenticatedFile testLibrary demoDisk demoConf demoManager
       ''irma-demo/RU/description.xml'') = None"
    "fst (ReadAuthenticatedFile testLibrary tamperedDisk demoConf demoManager
       ''irma-demo/description.xml'') = None"
    by code_simp+
  have a: "ReadAuthenticatedFile testLibrary demoDisk demoConf demoManager
      ''irma-demo/description.xml'' = (Some ''irma-demo'', True, None)"
  proof -
    have "\<exists>h. map_of (index demoManager) (ToSlash ''irma-demo/description.xml'') = Some h \<and>
        ReadFile demoDisk (Join (Path demoConf) ''irma-demo/description.xml'') = Inr ''irma-demo'' \<and>
        sha256 testLibrary ''irma-demo'' = h"
      using i(1) r(1) h by blast
    with ReadAuthenticatedFile_authentic[of testLibrary demoDisk demoConf demoManager
        "''irma-demo/description.xml''" "''irma-demo''"]
    show ?thesis by blast
  qed
  have b: "failureOf (ReadAuthenticatedFile testLibrary demoDisk demoConf demoManager
      ''irma-demo/pk.pem'') = Some NotIndexed"
    using ReadAuthenticatedFile_authentic[of testLibrary demoDisk demoConf demoManager
        "''irma-demo/pk.pem''" "[]"] i(3) f(1) by simp
  have c: "failureOf (ReadAuthenticatedFile testLibrary demoDisk demoConf demoManager
      ''irma-demo/RU/description.xml'') = Some IOError"
    using ReadAuthenticatedFile_authentic[of testLibrary demoDisk demoConf demoManager
        "''irma-demo/RU/description.xml''" "[]"] i(2) r(2) f(2) by simp
  have d: "failureOf (ReadAuthenticatedFile testLibrary tamperedDisk demoConf demoManager
      ''irma-demo/description.xml'') = Some HashMismatch"
    using ReadAuthenticatedFile_authentic[of testLibrary tamperedDisk demoConf demoManager
        "''irma-demo/description.xml''" "[]"] i(1) r(3) f(3) by simp
  from a b c d show ?thesis by blast
qed

section \<open>Properties of the signature check\<close>

lemma VerifySignature_returns: "\<exists>r. VerifySignature lib disk conf scheme = Returned r"
  by (cases "VerifySignature_body lib disk conf scheme") (simp_all add: VerifySignature_def)

lemma VerifySignature_recovers:
  "VerifySignature_body lib disk conf scheme = Panicked p \<Longrightarrow>
     VerifySignature lib disk conf scheme = Returned (Some (ErrSignatureFailedToVerify p))"
  by (simp add: VerifySignature_def)

lemma signatureInputs_body:
  assumes "signatureInputs disk conf scheme = Some (indexbts, pkbts, sig)"
  shows "VerifySignature_body lib disk conf scheme =
     (case ParsePemEcdsaPublicKey lib pkbts of
        Panicked p \<Rightarrow> Panicked p
      | Returned (Inl err) \<Rightarrow> Returned (Some err)
      | Returned (Inr pk) \<Rightarrow>
     (case asn1Unmarshal lib sig of
        Panicked p \<Rightarrow> Panicked p
      | Returned ints \<Rightarrow>
          if length ints < 2 then Panicked IndexOutOfRange
          else (case ecdsaVerify lib pk (sha256 lib indexbts) (ints ! 0) (ints ! 1) of
                  Panicked p \<Rightarrow> Panicked p
                | Returned ok \<Rightarrow>
                    if \<not> ok then Returned (Some ErrSignatureInvalid)
                    else Returned None)))"
  using assms
  by (auto simp: signatureInputs_def VerifySignature_body_def Let_def
      split: if_splits sum.splits option.splits go_result.splits)

text \<open>
  Claim C7. \<open>VerifySignature\<close> returns for every content of its files and whatever the
  decoding libraries do: a panic of its body becomes the error "signature failed to
  verify". A key file without PEM block (a \<open>nil\<close> block is dereferenced), a signature
  that decodes to fewer than two integers (the slice is read out of range), a key that
  does not parse and a key that is not an ECDSA key all give an error.
\<close>

theorem VerifySignature_never_panics:
  "(\<exists>r. VerifySignature lib disk conf scheme = Returned r) \<and>
   (VerifySignature_body lib disk conf scheme = Panicked p \<longrightarrow>
      VerifySignature lib disk conf scheme = Returned (Some (ErrSignatureFailedToVerify p))) \<and>
   (signatureInputs disk conf scheme = Some (indexbts, pkbts, sig) \<longrightarrow>
      (pemDecode lib pkbts = Returned None \<longrightarrow>
         VerifySignature lib disk conf scheme =
           Returned (Some (ErrSignatureFailedToVerify NilDereference))) \<and>
      (pemDecode lib pkbts = Returned (Some blk) \<and>
       ParsePKIXPublicKey lib blk = Returned (Inl e) \<longrightarrow>
         VerifySignature lib disk conf scheme = Returned (Some e)) \<and>
      (pemDecode lib pkbts = Returned (Some blk) \<and>
       ParsePKIXPublicKey lib blk = Returned (Inr OtherPublicKey) \<longrightarrow>
         VerifySignature lib disk conf scheme = Returned (Some ErrInvalidPublicKey)) \<and>
      (pemDecode lib pkbts = Returned (Some blk) \<and>
       ParsePKIXPublicKey lib blk = Returned (Inr (EcdsaPublicKey k)) \<and>
       asn1Unmarshal lib sig = Returned ints \<and> length ints < 2 \<longrightarrow>
         VerifySignature lib disk conf scheme =
           Returned (Some (ErrSignatureFailedToVerify IndexOutOfRange))))"
proof (intro conjI impI)
  show "\<exists>r. VerifySignature lib disk conf scheme = Returned r"
    by (rule VerifySignature_returns)
next
  assume "VerifySignature_body lib disk conf scheme = Panicked p"
  then show "VerifySignature lib disk conf scheme = Returned (Some (ErrSignatureFailedToVerify p))"
    by (rule VerifySignature_recovers)
next
  assume s: "signatureInputs disk conf scheme = Some (indexbts, pkbts, sig)"
    and "pemDecode lib pkbts = Returned None"
  then show "VerifySignature lib disk conf scheme =
      Returned (Some (ErrSignatureFailedToVerify NilDereference))"
    by (simp add: VerifySignature_def signatureInputs_body[OF s] ParsePemEcdsaPublicKey_def)
next
  assume s: "signatureInputs disk conf scheme = Some (indexbts, pkbts, sig)"
    and "pemDecode lib pkbts = Returned (Some blk) \<and> ParsePKIXPublicKey lib blk = Returned (Inl e)"
  then show "VerifySignature lib disk conf scheme = Returned (Some e)"
    by (simp add: VerifySignature_def signatureInputs_body[OF s] ParsePemEcdsaPublicKey_def)
next
  assume s: "signatureInputs disk conf scheme = Some (indexbts, pkbts, sig)"
    and "pemDecode lib pkbts = Returned (Some blk) \<and>
      ParsePKIXPublicKey lib blk = Returned (Inr OtherPublicKey)"
  then show "VerifySignature lib disk conf scheme = Returned (Some ErrInvalidPublicKey)"
    by (simp add: VerifySignature_def signatureInputs_body[OF s] ParsePemEcdsaPublicKey_def)
next
  assume s: "signatureInputs disk conf scheme = Some (indexbts, pkbts, sig)"
    and "pemDecode lib pkbts = Returned (Some blk) \<and>
       ParsePKIXPublicKey lib blk = Returned (Inr (EcdsaPublicKey k)) \<and>
       asn1Unmarshal lib sig = Returned ints \<and> length ints < 2"
  then show "VerifySignature lib disk conf scheme =
      Returned (Some (ErrSignatureFailedToVerify IndexOutOfRange))"
    by (simp add: VerifySignature_def signatureInputs_body[OF s] ParsePemEcdsaPublicKey_def)
qed

text \<open>On the demo folder with an empty key file, and with a signature of one integer.\<close>

theorem VerifySignature_never_panics_witness:
  "VerifySignature testLibrary noPemDisk demoConf ''irma-demo'' =
     Returned (Some (ErrSignatureFailedToVerify NilDereference)) \<and>
   VerifySignature testLibrary shortSignatureDisk demoConf ''irma-demo'' =
     Returned (Some (ErrSignatureFailedToVerify IndexOutOfRange))"
proof -
  have s1: "signatureInputs noPemDisk demoConf ''irma-demo'' = Some (String demoIndex, [], [CHR 0x02, CHR 0x00])"
    by code_simp
  have s2: "signatureInputs shortSignatureDisk demoConf ''irma-demo'' =
      Some (String demoIndex, ''ec'', [CHR 0x02])"
    by code_simp
  have l: "pemDecode testLibrary [] = Returned None"
    "pemDecode testLibrary ''ec'' = Returned (Some ''ec'')"
    "ParsePKIXPublicKey testLibrary ''ec'' = Returned (Inr (EcdsaPublicKey 1))"
    "asn1Unmarshal testLibrary [CHR 0x02] = Returned [2]"
    by (simp_all add: testLibrary_def)
  have a: "VerifySignature testLibrary noPemDisk demoConf ''irma-demo'' =
     Returned (Some (ErrSignatureFailedToVerify NilDereference))"
    using VerifySignature_never_panics[of testLibrary noPemDisk demoConf "''irma-demo''"
        IndexOutOfRange "String demoIndex" "[]" "[CHR 0x02, CHR 0x00]" "[]" ErrEmpty 0 "[]"]
      s1 l by simp
  have b: "VerifySignature testLibrary shortSignatureDisk demoConf ''irma-demo'' =
     Returned (Some (ErrSignatureFailedToVerify IndexOutOfRange))"
    using VerifySignature_never_panics[of testLibrary shortSignatureDisk demoConf "''irma-demo''"
        IndexOutOfRange "String demoIndex" "''ec''" "[CHR 0x02]" "''ec''" ErrEmpty 1 "[2]"]
      s2 l by simp
  from a b show ?thesis by blast
qed

section \<open>Properties of the scheme loader\<close>

lemma ToSlash_id: "ToSlash path = path"
  by (simp add: ToSlash_def Separator_def)

lemma checkScheme_ok:
  "checkScheme lib disk scheme dir = (scheme', ws, None) \<Longrightarrow> scheme' = scheme"
  by (auto simp: checkScheme_def split: if_splits)

lemma checkScheme_err:
  "checkScheme lib disk scheme dir = (scheme', ws, Some e) \<Longrightarrow>
     Status scheme' = SchemeManagerStatusParsingError"
  by (auto simp: checkScheme_def split: if_splits)

lemma warn_Path: "Path (warn conf ws) = Path conf"
  by (simp add: warn_def)

lemma ReadAuthenticatedFile_index:
  "index m = index m' \<Longrightarrow>
     ReadAuthenticatedFile lib disk conf m p = ReadAuthenticatedFile lib disk conf m' p"
  by (simp add: ReadAuthenticatedFile_def)

lemma verifyFiles_index:
  "index m = index m' \<Longrightarrow> verifyFiles lib disk conf m fs = verifyFiles lib disk conf m' fs"
proof (induction fs)
  case Nil
  then show ?case by simp
next
  case (Cons f fs)
  obtain path h where f: "f = (path, h)" by (cases f)
  have ih: "verifyFiles lib disk conf m fs = verifyFiles lib disk conf m' fs"
    by (rule Cons.IH[OF Cons.prems])
  have ra: "ReadAuthenticatedFile lib disk conf m path = ReadAuthenticatedFile lib disk conf m' path"
    by (rule ReadAuthenticatedFile_index[OF Cons.prems])
  show ?case unfolding f verifyFiles.simps ih ra ..
qed

lemma steps_Valid:
  assumes r: "parseSchemeManagerSteps lib disk conf dir manager = Returned (conf', m, err)"
    and v: "Status m = SchemeManagerStatusValid"
    and i: "Status manager \<noteq> SchemeManagerStatusValid"
  shows "err = None \<and> Path conf' = Path conf \<and>
    VerifySignature lib disk conf (ID manager) = Returned None \<and>
    (\<exists>conf2. Path conf2 = Path conf \<and> VerifySchemeManager lib disk conf2 m = Returned
       (verifyFiles lib disk conf2 m (index m)) \<and> verifyFiles lib disk conf2 m (index m) = None)"
proof -
  from r i v obtain e0 where "VerifySignature lib disk conf (ID manager) = Returned e0"
    by (auto simp: parseSchemeManagerSteps_def split: go_result.splits)
  with r i v have vs: "VerifySignature lib disk conf (ID manager) = Returned None"
    by (cases e0) (auto simp: parseSchemeManagerSteps_def)
  obtain idx ws e1 where pi: "parseIndex lib disk conf (Base dir) = (idx, ws, e1)"
    by (cases "parseIndex lib disk conf (Base dir)") auto
  with r vs v have e1: "e1 = None"
    by (cases e1) (auto simp: parseSchemeManagerSteps_def)
  define conf1 where "conf1 = warn conf ws"
  define manager1 where "manager1 = manager\<lparr>index := idx\<rparr>"
  from r vs pi e1 v i obtain d where
    pd: "pathToDescription lib disk conf1 manager1 (dir @ ''/description.xml'') =
      Returned (True, None, Some d)"
    by (auto simp: parseSchemeManagerSteps_def conf1_def manager1_def Let_def
        split: go_result.splits option.splits bool.splits)
  obtain manager2 ws2 e2 where cs: "checkScheme lib disk (describe manager1 d) dir = (manager2, ws2, e2)"
    by (cases "checkScheme lib disk (describe manager1 d) dir") auto
  have e2: "e2 = None"
  proof (cases e2)
    case None then show ?thesis .
  next
    case (Some e)
    with r vs pi e1 pd cs have "m = manager2"
      by (simp add: parseSchemeManagerSteps_def conf1_def manager1_def Let_def)
    with checkScheme_err[OF cs[unfolded Some]] v show ?thesis by simp
  qed
  from checkScheme_ok[OF cs[unfolded e2]] have m2: "manager2 = describe manager1 d" .
  have st2: "Status manager2 \<noteq> SchemeManagerStatusValid"
    using i by (simp add: m2 describe_def manager1_def)
  define conf2 where "conf2 = warn conf1 ws2"
  note defs = parseSchemeManagerSteps_def conf1_def[symmetric] manager1_def[symmetric]
    conf2_def[symmetric] Let_def
  from r vs pi e1 pd cs e2 st2 v obtain e3 where
    "VerifySchemeManager lib disk conf2 manager2 = Returned e3"
    by (auto simp: defs split: go_result.splits)
  with r vs pi e1 pd cs e2 st2 v have vm: "VerifySchemeManager lib disk conf2 manager2 = Returned None"
    by (cases e3) (auto simp: defs)
  obtain ts ex e4 where rt: "readTimestamp lib disk (dir @ ''/timestamp'') = (ts, ex, e4)"
    by (cases "readTimestamp lib disk (dir @ ''/timestamp'')") auto
  from r vs pi e1 pd cs e2 st2 v vm rt obtain t where
    rt': "readTimestamp lib disk (dir @ ''/timestamp'') = (Some t, True, None)"
    by (cases e4; cases ex; cases ts) (auto simp: defs)
  define manager3 where "manager3 = manager2\<lparr>Timestamp := t\<rparr>"
  obtain content e5 where
    ifo: "issuerFolders lib disk (Path conf2) dir (index manager3) (contentOf conf2) = (content, e5)"
    by (cases "issuerFolders lib disk (Path conf2) dir (index manager3) (contentOf conf2)") auto
  from r vs pi e1 pd cs e2 vm rt' ifo v have fin: "e5 = None \<and> err = None \<and>
      m = manager3\<lparr>Status := SchemeManagerStatusValid, Valid := True\<rparr> \<and>
      conf' = withContent conf2 content"
    by (cases e5) (auto simp: defs manager3_def)
  have p2: "Path conf2 = Path conf" by (simp add: conf2_def conf1_def warn_Path)
  have idx: "index m = index manager2" using fin by (simp add: manager3_def)
  have same: "verifyFiles lib disk conf2 m fs = verifyFiles lib disk conf2 manager2 fs" for fs
    by (rule verifyFiles_index[OF idx])
  have idm: "ID m = ID manager2" using fin by (simp add: manager3_def)
  from vm have vf: "verifyFiles lib disk conf2 manager2 (index manager2) = None"
    and vs2: "VerifySignature lib disk conf2 (ID manager2) = Returned None"
    by (auto simp: VerifySchemeManager_def split: go_result.splits option.splits)
  have "VerifySchemeManager lib disk conf2 m = Returned (verifyFiles lib disk conf2 m (index m))"
    using vs2 idm by (simp add: VerifySchemeManager_def)
  moreover have "verifyFiles lib disk conf2 m (index m) = None" using vf same idx by simp
  moreover have "Path conf' = Path conf" using fin p2 by (simp add: withContent_def)
  ultimately show ?thesis using fin vs p2 by blast
qed


lemma verifyFiles_None:
  assumes "verifyFiles lib disk conf m fs = None" and "path \<in> fst ` set fs"
    and "map_of (index m) path = Some h"
  shows "PathExists disk (Join (Path conf) path) = (False, None) \<or>
     (PathExists disk (Join (Path conf) path) = (True, None) \<and>
      (\<exists>bts. ReadFile disk (Join (Path conf) path) = Inr bts \<and> sha256 lib bts = h))"
  using assms(1,2)
proof (induction fs)
  case Nil
  then show ?case by simp
next
  case (Cons f fs)
  obtain p h' where f: "f = (p, h')" by (cases f)
  obtain ex e where pe: "PathExists disk (Join (Path conf) p) = (ex, e)"
    by (cases "PathExists disk (Join (Path conf) p)") auto
  from Cons.prems(1) f pe have e: "e = None" by (cases e) simp_all
  obtain b fo er where raf: "ReadAuthenticatedFile lib disk conf m p = (b, fo, er)"
    by (cases "ReadAuthenticatedFile lib disk conf m p") auto
  have er: "ex \<Longrightarrow> er = None"
    using Cons.prems(1) f pe e raf by (cases er) simp_all
  have rest: "verifyFiles lib disk conf m fs = None"
    using Cons.prems(1) f pe e raf er by (cases ex) simp_all
  show ?case
  proof (cases "path = p")
    case False
    with Cons.prems(2) f have "path \<in> fst ` set fs" by auto
    from Cons.IH[OF rest this] show ?thesis .
  next
    case True
    show ?thesis
    proof (cases ex)
      case False
      with True pe e show ?thesis by simp
    next
      case t: True
      from er[OF t] raf assms(3) True
      have "\<exists>bts. ReadFile disk (Join (Path conf) path) = Inr bts \<and> sha256 lib bts = h"
        by (auto simp: ReadAuthenticatedFile_def ToSlash_id split: sum.splits if_splits)
      with True pe e t show ?thesis by simp
    qed
  qed
qed

lemma warn_Nil: "warn conf [] = conf"
  by (simp add: warn_def)

lemma demo_verify: "VerifySignature testLibrary demoDisk demoConf ''irma-demo'' = Returned None"
  by code_simp

lemma demo_base: "Base ''/conf/irma-demo'' = ''irma-demo''"
  by code_simp

lemma demo_parseIndex: "parseIndex testLibrary demoDisk demoConf ''irma-demo'' = (rev demoIndex, [], None)"
  by code_simp

lemma demo_description:
  "pathToDescription testLibrary demoDisk demoConf
     ((NewSchemeManager ''irma-demo'')\<lparr>index := rev demoIndex\<rparr>) (''/conf/irma-demo'' @ ''/description.xml'') =
   Returned (True, None, Some demoDescription)"
  by code_simp

lemma demo_checkScheme:
  "checkScheme testLibrary demoDisk
     (describe ((NewSchemeManager ''irma-demo'')\<lparr>index := rev demoIndex\<rparr>) demoDescription) ''/conf/irma-demo'' =
   (demoManager\<lparr>Status := SchemeManagerStatusUnprocessed, Valid := False, Timestamp := 0\<rparr>, [], None)"
  by code_simp

lemma demo_verifyManager:
  "VerifySchemeManager testLibrary demoDisk demoConf
     (demoManager\<lparr>Status := SchemeManagerStatusUnprocessed, Valid := False, Timestamp := 0\<rparr>) = Returned None"
  by code_simp

lemma demo_timestamp:
  "readTimestamp testLibrary demoDisk (''/conf/irma-demo'' @ ''/timestamp'') = (Some 100, True, None)"
  by code_simp


lemma demo_issuers:
  "issuerFolders testLibrary disk root dir idx content = (content, None)"
  by (simp add: testLibrary_def)

lemma demo_steps:
  "parseSchemeManagerSteps testLibrary demoDisk demoConf ''/conf/irma-demo''
     (NewSchemeManager ''irma-demo'') = Returned (demoConf, demoManager, None)"
proof -
  have id: "ID (NewSchemeManager ''irma-demo'') = ''irma-demo''"
    by (simp add: NewSchemeManager_def)
  have fin: "demoManager\<lparr>Timestamp := 100, Status := SchemeManagerStatusValid, Valid := True\<rparr> =
      demoManager"
    by (simp add: demoManager_def)
  have c: "withContent demoConf (contentOf demoConf) = demoConf"
    by (simp add: withContent_def contentOf_def demoConf_def)
  show ?thesis
    unfolding parseSchemeManagerSteps_def id demo_verify demo_base demo_parseIndex
    by (simp add: warn_Nil demo_description demo_checkScheme demo_verifyManager
        demo_timestamp demo_issuers fin c del: append.simps)
qed

lemma demo_parse_folder:
  "ParseSchemeManagerFolder testLibrary demoDisk demoConf ''/conf/irma-demo''
     (NewSchemeManager ''irma-demo'') =
   Returned (demoConf\<lparr>SchemeManagers := [(''irma-demo'', demoManager)]\<rparr>, None)"
  unfolding ParseSchemeManagerFolder_def demo_steps
  by (simp add: NewSchemeManager_def demoConf_def)

text \<open>
  Claim C1, as amended. When \<open>ParseSchemeManagerFolder\<close>, called with a manager that is not
  yet valid, returns and leaves the manager in the map with status \<open>Valid\<close>, it returns no
  error, and every path listed in the index of the manager either does not exist under
  the configuration path or exists there with contents whose SHA-256 is the hash
  recorded in the index. (A listed file that is not on disk is skipped by
  \<open>VerifySchemeManager\<close>.)
\<close>

theorem ParseSchemeManagerFolder_Valid:
  assumes "ParseSchemeManagerFolder lib disk conf dir manager = Returned (conf', err)"
    and "Status manager \<noteq> SchemeManagerStatusValid"
    and "map_of (SchemeManagers conf') (ID manager) = Some m"
    and "Status m = SchemeManagerStatusValid"
    and "map_of (index m) path = Some h"
  shows "err = None \<and>
    (PathExists disk (Join (Path conf) path) = (False, None) \<or>
     (PathExists disk (Join (Path conf) path) = (True, None) \<and>
      (\<exists>bts. ReadFile disk (Join (Path conf) path) = Inr bts \<and> sha256 lib bts = h)))"
proof -
  from assms(1) obtain c m' e where
    st: "parseSchemeManagerSteps lib disk conf dir manager = Returned (c, m', e)" and
    c: "conf' = c\<lparr>SchemeManagers := AList.update (ID manager) m' (SchemeManagers c)\<rparr>" and
    e: "err = (case e of None \<Rightarrow> None
          | Some x \<Rightarrow> Some (SchemeManagerError (ID m') (Status m') x))"
    by (auto simp: ParseSchemeManagerFolder_def split: go_result.splits)
  from assms(3) c have "m' = m" by (simp add: update_conv')
  with st have st': "parseSchemeManagerSteps lib disk conf dir manager = Returned (c, m, e)"
    by simp
  from steps_Valid[OF st' assms(4) assms(2)] obtain conf2 where
    en: "e = None" and p: "Path conf2 = Path conf" and
    vf: "verifyFiles lib disk conf2 m (index m) = None" by blast
  from assms(5) have "path \<in> fst ` set (index m)"
    by (metis map_of_SomeD fst_conv image_eqI)
  from verifyFiles_None[OF vf this assms(5)] p en e show ?thesis by simp
qed

text \<open>
  The demo folder parses to a valid scheme, and its description, which the index
  lists, is on disk with the recorded hash.
\<close>

theorem ParseSchemeManagerFolder_Valid_witness:
  "PathExists demoDisk (Join (Path demoConf) ''irma-demo/description.xml'') = (True, None) \<and>
   (\<exists>bts. ReadFile demoDisk (Join (Path demoConf) ''irma-demo/description.xml'') = Inr bts \<and>
      sha256 testLibrary bts = checksum ''irma-demo'')"
proof -
  have a: "Status (NewSchemeManager ''irma-demo'') \<noteq> SchemeManagerStatusValid"
    by (simp add: NewSchemeManager_def)
  have b: "map_of (SchemeManagers (demoConf\<lparr>SchemeManagers := [(''irma-demo'', demoManager)]\<rparr>))
      (ID (NewSchemeManager ''irma-demo'')) = Some demoManager"
    by (simp add: NewSchemeManager_def)
  have c: "Status demoManager = SchemeManagerStatusValid" by (simp add: demoManager_def)
  have d: "map_of (index demoManager) ''irma-demo/description.xml'' = Some (checksum ''irma-demo'')"
    by code_simp
  have e: "PathExists demoDisk (Join (Path demoConf) ''irma-demo/description.xml'') \<noteq> (False, None)"
    by code_simp
  from ParseSchemeManagerFolder_Valid[OF demo_parse_folder a b c d] e
  show ?thesis by blast
qed

text \<open>
  The claim as stated fails: the demo folder parses to a valid scheme although its
  index lists the description of the issuer \<open>RU\<close>, which does not exist on disk.
\<close>

theorem ParseSchemeManagerFolder_missing_file_counterexample:
  "ParseSchemeManagerFolder testLibrary demoDisk demoConf ''/conf/irma-demo''
     (NewSchemeManager ''irma-demo'') =
     Returned (demoConf\<lparr>SchemeManagers := [(''irma-demo'', demoManager)]\<rparr>, None) \<and>
   Status demoManager = SchemeManagerStatusValid \<and>
   map_of (index demoManager) ''irma-demo/RU/description.xml'' = Some (checksum ''RU'') \<and>
   PathExists demoDisk (Join (Path demoConf) ''irma-demo/RU/description.xml'') = (False, None)"
proof -
  have "Status demoManager = SchemeManagerStatusValid" by (simp add: demoManager_def)
  moreover have "map_of (index demoManager) ''irma-demo/RU/description.xml'' = Some (checksum ''RU'')"
    by code_simp
  moreover have "PathExists demoDisk (Join (Path demoConf) ''irma-demo/RU/description.xml'') =
      (False, None)"
    by code_simp
  ultimately show ?thesis using demo_parse_folder by blast
qed

end
